theory Spec2Isabelle
  imports Main "HOL-Library.Sublist"
begin

section \<open>The reply bot of \<^verbatim>\<open>twitter-reply-bot.py\<close>\<close>

text \<open>
  The program is one class, \<^verbatim>\<open>TwitterBot\<close>, around three remote services: the
  Twitter client (tweepy), the Airtable table that logs the replies, and the language
  model. The model below passes two pieces of state explicitly:
  \<^item> \<open>bot\<close>: the instance fields of \<^verbatim>\<open>self\<close> that the methods read and write;
  \<^item> \<open>world\<close>: the rows of the Airtable table and the history of every call the bot
    has made to a remote service, and of every line it has printed.
  What a remote service answers is not decided by the program: it is read from an
  environment \<open>env\<close>, a record of functions that take the history so far and the
  arguments of the call, and either raise (\<open>Inl\<close>) or return (\<open>Inr\<close>). An exception of
  Python is the \<open>Inl\<close> branch of every result; the state reached when it was raised is
  returned beside it.
\<close>

subsection \<open>Data\<close>

text \<open>Exceptions (subclasses of \<^verbatim>\<open>Exception\<close>): the \<^verbatim>\<open>AttributeError\<close> of reading a
  field of \<^verbatim>\<open>None\<close>, and whatever a remote call raises.\<close>

datatype error = AttributeError | ServiceError string

text \<open>A mention as tweepy returns it (\<^verbatim>\<open>tweet_fields=["created_at", "conversation_id"]\<close>);
  a field the response lacks reads as \<^verbatim>\<open>None\<close>. Times are seconds.\<close>

record mention =
  mention_id :: int
  conversation_id :: "int option"
  created_at :: "int option"

text \<open>The \<^verbatim>\<open>.data\<close> of \<^verbatim>\<open>get_tweet\<close>: the conversation tweet.\<close>

record tweet =
  tweet_id :: int
  tweet_text :: string

text \<open>A row of the table: the dict \<^verbatim>\<open>record["fields"]\<close>, keys in insertion order.\<close>

type_synonym row = "(string \<times> string) list"

datatype message = SystemMessage string | HumanMessage string

datatype printed =
    NoMentionsFound
  | PrintedError error
  | StartingJob string
  | FinishedJob string int int int
  | JobExecutedAt string

datatype event =
    Call_get_me
  | Call_get_users_mentions int string
  | Call_get_tweet int
  | Call_create_tweet string int
  | Call_llm_invoke "message list"
  | Call_airtable_get_all
  | Call_airtable_insert row
  | Print printed

record world =
  store :: "row list"
  trace :: "event list"

record bot =
  twitter_me_id :: int
  tweet_response_limit :: int
  mentions_found :: int
  mentions_replied :: int
  mentions_replied_errors :: int

text \<open>
  The environment. \<open>get_users_mentions\<close> and \<open>get_tweet\<close> give the \<^verbatim>\<open>.data\<close> of the
  response, which is \<^verbatim>\<open>None\<close> when the service has nothing to return;
  \<open>create_tweet\<close> gives \<^verbatim>\<open>response.data["id"]\<close>. The two Airtable calls only decide
  whether the call raises: the rows are those of \<open>store\<close>. \<open>isoformat\<close>,
  \<open>isoformat_aware\<close> and \<open>strftime\<close> are the calendar renderings of the standard library,
  taken as parameters: \<^verbatim>\<open>.isoformat()\<close> of a naive time such as \<^verbatim>\<open>datetime.utcnow()\<close>,
  \<^verbatim>\<open>.isoformat()\<close> of a time that carries its zone, as the \<open>created_at\<close> that tweepy
  parses does (the text then ends with the offset), and \<^verbatim>\<open>.strftime\<close> with the format
  of \<^verbatim>\<open>get_mentions\<close>.
\<close>

record env =
  get_me :: "event list \<Rightarrow> error + int"
  get_users_mentions :: "event list \<Rightarrow> int \<Rightarrow> string \<Rightarrow> error + mention list option"
  get_tweet :: "event list \<Rightarrow> int \<Rightarrow> error + tweet option"
  create_tweet :: "event list \<Rightarrow> string \<Rightarrow> int \<Rightarrow> error + string"
  llm_invoke :: "event list \<Rightarrow> message list \<Rightarrow> error + string"
  airtable_get_all :: "event list \<Rightarrow> error option"
  airtable_insert :: "event list \<Rightarrow> row \<Rightarrow> error option"
  utcnow :: "event list \<Rightarrow> int"
  isoformat :: "int \<Rightarrow> string"
  isoformat_aware :: "int \<Rightarrow> string"
  strftime :: "int \<Rightarrow> string"

definition emit :: "event \<Rightarrow> world \<Rightarrow> world" where
  "emit e w = w\<lparr>trace := trace w @ [e]\<rparr>"

subsection \<open>Python built-ins\<close>

text \<open>\<^verbatim>\<open>str\<close> of an integer: its decimal digits, with a sign when negative.\<close>

fun str_nat :: "nat \<Rightarrow> string" where
  "str_nat n =
     (if n < 10 then [''0123456789'' ! n]
      else str_nat (n div 10) @ [''0123456789'' ! (n mod 10)])"

declare str_nat.simps [simp del]

definition str :: "int \<Rightarrow> string" where
  "str i = (if i < 0 then CHR ''-'' # str_nat (nat (- i)) else str_nat (nat i))"

text \<open>The slice \<^verbatim>\<open>xs[:n]\<close>; a negative \<open>n\<close> counts from the end.\<close>

definition slice_to :: "int \<Rightarrow> 'a list \<Rightarrow> 'a list" where
  "slice_to n xs = (if 0 \<le> n then take (nat n) xs else take (nat (int (length xs) + n)) xs)"

subsection \<open>The methods of \<^verbatim>\<open>TwitterBot\<close>\<close>

text \<open>\<^verbatim>\<open>__init__\<close>: building the three clients calls no service; \<^verbatim>\<open>get_me_id\<close> does.\<close>

definition get_me_id :: "env \<Rightarrow> world \<Rightarrow> (error + int) \<times> world" where
  "get_me_id env w = (get_me env (trace w), emit Call_get_me w)"

definition TwitterBot_init :: "env \<Rightarrow> world \<Rightarrow> (error + bot) \<times> world" where
  "TwitterBot_init env w =
     (case get_me_id env w of
        (Inl e, w1) \<Rightarrow> (Inl e, w1)
      | (Inr me, w1) \<Rightarrow>
          (Inr \<lparr>twitter_me_id = me, tweet_response_limit = 35, mentions_found = 0,
                mentions_replied = 0, mentions_replied_errors = 0\<rparr>, w1))"

definition system_template :: string where
  \<open>system_template = ''\<newline>            You are OperateCrypto AI, a Web3 futurist and crypto analyst.\<newline>            Your goal is to provide **concise, engaging, and insightful** responses about blockchain, DeFi, DAOs, and decentralization.\<newline>\<newline>            % RESPONSE TONE:\<newline>            - Direct, **slightly mysterious**, and **future-focused**.\<newline>            - No fluff. Straight to the point.\<newline>            - Occasionally witty, but always **authoritative**.\<newline>\<newline>            % RESPONSE FORMAT:\<newline>            - Keep it **under 200 characters**.\<newline>            - **One or two sentences max**.\<newline>            - No emojis.\<newline>            \<newline>            % RESPONSE CONTENT:\<newline>            - If the tweet is about **decentralization, DAOs, crypto regulation, or DeFi**, provide an **insightful take**.\<newline>            - If asked about **the future**, make a **bold but realistic prediction**.\<newline>            - If a tweet lacks context, reply: **"Crypto never sleeps, but I need more details."**\<newline>        ''\<close>

definition generate_response :: "env \<Rightarrow> string \<Rightarrow> world \<Rightarrow> (error + string) \<times> world" where
  "generate_response env mentioned_conversation_tweet_text w =
     (let final_prompt =
        [SystemMessage system_template, HumanMessage mentioned_conversation_tweet_text]
      in (llm_invoke env (trace w) final_prompt, emit (Call_llm_invoke final_prompt) w))"

text \<open>The dict that \<^verbatim>\<open>respond_to_mention\<close> hands to \<^verbatim>\<open>airtable.insert\<close>.\<close>

definition reply_record :: "tweet \<Rightarrow> string \<Rightarrow> string \<Rightarrow> string \<Rightarrow> string \<Rightarrow> row" where
  "reply_record mentioned_conversation_tweet response_id response_text now mentioned_at =
     [(''mentioned_conversation_tweet_id'', str (tweet_id mentioned_conversation_tweet)),
      (''mentioned_conversation_tweet_text'', tweet_text mentioned_conversation_tweet),
      (''tweet_response_id'', response_id),
      (''tweet_response_text'', response_text),
      (''tweet_response_created_at'', now),
      (''mentioned_at'', mentioned_at)]"

text \<open>
  \<^verbatim>\<open>respond_to_mention\<close>. The generation is outside the \<^verbatim>\<open>try\<close>; the
  \<^verbatim>\<open>try\<close> holds the posting call and the increment of \<open>mentions_replied\<close>; the dict of
  the row is built, and inserted, after it (\<^verbatim>\<open>.isoformat()\<close> of a \<open>created_at\<close> that is
  \<^verbatim>\<open>None\<close> raises there). The method returns \<^verbatim>\<open>None\<close> from the handler and
  \<^verbatim>\<open>True\<close> at its end. A call to \<^verbatim>\<open>insert\<close> that raises is taken to have stored
  nothing.
\<close>

definition respond_to_mention ::
  "env \<Rightarrow> mention \<Rightarrow> tweet \<Rightarrow> bot \<Rightarrow> world \<Rightarrow> (error + bool option) \<times> bot \<times> world" where
  "respond_to_mention env mention mentioned_conversation_tweet b w =
     (case generate_response env (tweet_text mentioned_conversation_tweet) w of
        (Inl e, w1) \<Rightarrow> (Inl e, b, w1)
      | (Inr response_text, w1) \<Rightarrow>
          (let w2 = emit (Call_create_tweet response_text (mention_id mention)) w1 in
           case create_tweet env (trace w1) response_text (mention_id mention) of
             Inl e \<Rightarrow>
               (Inr None,
                b\<lparr>mentions_replied_errors := mentions_replied_errors b + 1\<rparr>,
                emit (Print (PrintedError e)) w2)
           | Inr response_id \<Rightarrow>
               (let b2 = b\<lparr>mentions_replied := mentions_replied b + 1\<rparr> in
                case created_at mention of
                  None \<Rightarrow> (Inl AttributeError, b2, w2)
                | Some mentioned_at \<Rightarrow>
                    (let entry =
                       reply_record mentioned_conversation_tweet response_id response_text
                         (isoformat env (utcnow env (trace w2))) (isoformat_aware env mentioned_at);
                       w3 = emit (Call_airtable_insert entry) w2
                     in case airtable_insert env (trace w2) entry of
                          Some e \<Rightarrow> (Inl e, b2, w3)
                        | None \<Rightarrow> (Inr (Some True), b2, w3\<lparr>store := store w3 @ [entry]\<rparr>)))))"

definition get_mention_conversation_tweet ::
  "env \<Rightarrow> mention \<Rightarrow> world \<Rightarrow> (error + tweet option) \<times> world" where
  "get_mention_conversation_tweet env mention w =
     (case conversation_id mention of
        Some cid \<Rightarrow> (get_tweet env (trace w) cid, emit (Call_get_tweet cid) w)
      | None \<Rightarrow> (Inr None, w))"

definition get_mentions :: "env \<Rightarrow> bot \<Rightarrow> world \<Rightarrow> (error + mention list option) \<times> world" where
  "get_mentions env b w =
     (let now = utcnow env (trace w);
          start_time = now - 20 * 60;
          start_time_str = strftime env start_time
      in (get_users_mentions env (trace w) (twitter_me_id b) start_time_str,
          emit (Call_get_users_mentions (twitter_me_id b) start_time_str) w))"

fun scan_records :: "row list \<Rightarrow> string \<Rightarrow> bool" where
  "scan_records [] key = False"
| "scan_records (rec # records) key =
     (if map_of rec ''mentioned_conversation_tweet_id'' = Some key then True
      else scan_records records key)"

definition check_already_responded :: "env \<Rightarrow> int \<Rightarrow> world \<Rightarrow> (error + bool) \<times> world" where
  "check_already_responded env mentioned_conversation_tweet_id w =
     (case airtable_get_all env (trace w) of
        Some e \<Rightarrow> (Inl e, emit Call_airtable_get_all w)
      | None \<Rightarrow>
          (Inr (scan_records (store w) (str mentioned_conversation_tweet_id)),
           emit Call_airtable_get_all w))"

text \<open>
  The body of the loop of \<^verbatim>\<open>respond_to_mentions\<close>, for one mention. Reading
  \<^verbatim>\<open>.id\<close> of a conversation tweet that is \<^verbatim>\<open>None\<close> raises. The condition is an
  \<^verbatim>\<open>and\<close>: the table is read only when the two ids differ.
\<close>

definition respond_to_mentions_body ::
  "env \<Rightarrow> mention \<Rightarrow> bot \<Rightarrow> world \<Rightarrow> (error + unit) \<times> bot \<times> world" where
  "respond_to_mentions_body env mention b w =
     (case get_mention_conversation_tweet env mention w of
        (Inl e, w1) \<Rightarrow> (Inl e, b, w1)
      | (Inr None, w1) \<Rightarrow> (Inl AttributeError, b, w1)
      | (Inr (Some mentioned_conversation_tweet), w1) \<Rightarrow>
          if tweet_id mentioned_conversation_tweet \<noteq> mention_id mention then
            (case check_already_responded env (tweet_id mentioned_conversation_tweet) w1 of
               (Inl e, w2) \<Rightarrow> (Inl e, b, w2)
             | (Inr True, w2) \<Rightarrow> (Inr (), b, w2)
             | (Inr False, w2) \<Rightarrow>
                 (case respond_to_mention env mention mentioned_conversation_tweet b w2 of
                    (Inl e, b3, w3) \<Rightarrow> (Inl e, b3, w3)
                  | (Inr _, b3, w3) \<Rightarrow> (Inr (), b3, w3)))
          else (Inr (), b, w1))"

text \<open>The \<^verbatim>\<open>for\<close> loop: an exception of the body ends it.\<close>

fun respond_to_mentions_loop ::
  "env \<Rightarrow> mention list \<Rightarrow> bot \<Rightarrow> world \<Rightarrow> (error + unit) \<times> bot \<times> world" where
  "respond_to_mentions_loop env [] b w = (Inr (), b, w)"
| "respond_to_mentions_loop env (mention # mentions) b w =
     (case respond_to_mentions_body env mention b w of
        (Inl e, b1, w1) \<Rightarrow> (Inl e, b1, w1)
      | (Inr _, b1, w1) \<Rightarrow> respond_to_mentions_loop env mentions b1 w1)"

text \<open>\<^verbatim>\<open>respond_to_mentions\<close>: \<^verbatim>\<open>not mentions\<close> holds of \<^verbatim>\<open>None\<close> and of the
  empty list.\<close>

definition respond_to_mentions ::
  "env \<Rightarrow> bot \<Rightarrow> world \<Rightarrow> (error + bool option) \<times> bot \<times> world" where
  "respond_to_mentions env b w =
     (case get_mentions env b w of
        (Inl e, w1) \<Rightarrow> (Inl e, b, w1)
      | (Inr None, w1) \<Rightarrow> (Inr None, b, emit (Print NoMentionsFound) w1)
      | (Inr (Some []), w1) \<Rightarrow> (Inr None, b, emit (Print NoMentionsFound) w1)
      | (Inr (Some (m # ms)), w1) \<Rightarrow>
          (let mentions = m # ms;
               b1 = b\<lparr>mentions_found := int (length mentions)\<rparr>
           in case respond_to_mentions_loop env
                     (slice_to (tweet_response_limit b1) mentions) b1 w1 of
                (Inl e, b2, w2) \<Rightarrow> (Inl e, b2, w2)
              | (Inr _, b2, w2) \<Rightarrow> (Inr (Some True), b2, w2)))"

definition execute_replies :: "env \<Rightarrow> bot \<Rightarrow> world \<Rightarrow> (error + unit) \<times> bot \<times> world" where
  "execute_replies env b w =
     (let w0 = emit (Print (StartingJob (isoformat env (utcnow env (trace w))))) w in
      case respond_to_mentions env b w0 of
        (Inl e, b1, w1) \<Rightarrow> (Inl e, b1, w1)
      | (Inr _, b1, w1) \<Rightarrow>
          (Inr (), b1,
           emit (Print (FinishedJob (isoformat env (utcnow env (trace w1)))
                   (mentions_found b1) (mentions_replied b1) (mentions_replied_errors b1))) w1))"

text \<open>\<^verbatim>\<open>job\<close>: the bot is a local variable, built anew and dropped at the end; only
  the world goes on to the next job. The scheduler calls \<^verbatim>\<open>job\<close> every six minutes;
  its clock is not part of this model.\<close>

definition job :: "env \<Rightarrow> world \<Rightarrow> (error + unit) \<times> world" where
  "job env w =
     (let w0 = emit (Print (JobExecutedAt (isoformat env (utcnow env (trace w))))) w in
      case TwitterBot_init env w0 of
        (Inl e, w1) \<Rightarrow> (Inl e, w1)
      | (Inr b, w1) \<Rightarrow>
          (case execute_replies env b w1 of (r, b2, w2) \<Rightarrow> (r, w2)))"

subsection \<open>Reading the history\<close>

text \<open>The conversation ids the bot has fetched and the mentions it has replied to, in
  the order of the calls.\<close>

fun resolved_ids :: "event list \<Rightarrow> int list" where
  "resolved_ids [] = []"
| "resolved_ids (Call_get_tweet cid # es) = cid # resolved_ids es"
| "resolved_ids (_ # es) = resolved_ids es"

fun reply_targets :: "event list \<Rightarrow> int list" where
  "reply_targets [] = []"
| "reply_targets (Call_create_tweet text i # es) = i # reply_targets es"
| "reply_targets (_ # es) = reply_targets es"

text \<open>The values of the key field over the table, and the invariant that no value
  occurs in two rows.\<close>

definition record_keys :: "row list \<Rightarrow> string list" where
  "record_keys rows = List.map_filter (\<lambda>r. map_of r ''mentioned_conversation_tweet_id'') rows"

definition at_most_one_record :: "row list \<Rightarrow> bool" where
  "at_most_one_record rows = distinct (record_keys rows)"

text \<open>What a run has added to the history, and counters moved by given amounts.\<close>

definition new_events :: "world \<Rightarrow> world \<Rightarrow> event list" where
  "new_events w w' = drop (length (trace w)) (trace w')"

definition add_counts :: "int \<Rightarrow> int \<Rightarrow> bot \<Rightarrow> bot" where
  "add_counts r e b =
     b\<lparr>mentions_replied := mentions_replied b + r,
       mentions_replied_errors := mentions_replied_errors b + e\<rparr>"

definition zeroed :: "bot \<Rightarrow> bot" where
  "zeroed b = b\<lparr>mentions_found := 0, mentions_replied := 0, mentions_replied_errors := 0\<rparr>"

subsection \<open>Sample inputs\<close>

text \<open>An environment that answers the same whatever the history: the mentions fetched,
  what posting a reply to a given mention does, what the model does, what the insert
  does. Every conversation tweet exists and the table can always be read.\<close>

definition sample_env ::
  "mention list option \<Rightarrow> (int \<Rightarrow> error + string) \<Rightarrow> (error + string) \<Rightarrow> error option \<Rightarrow> env" where
  "sample_env fetched post llm ins =
     \<lparr>get_me = (\<lambda>h. Inr 1),
      get_users_mentions = (\<lambda>h uid since. Inr fetched),
      get_tweet = (\<lambda>h cid. Inr (Some \<lparr>tweet_id = cid, tweet_text = ''DAOs are overrated''\<rparr>)),
      create_tweet = (\<lambda>h text i. post i),
      llm_invoke = (\<lambda>h prompt. llm),
      airtable_get_all = (\<lambda>h. None),
      airtable_insert = (\<lambda>h r. ins),
      utcnow = (\<lambda>h. 0),
      isoformat = str,
      isoformat_aware = (\<lambda>t. str t @ ''+00:00''),
      strftime = str\<rparr>"

definition sample_mention :: "int \<Rightarrow> int option \<Rightarrow> mention" where
  "sample_mention i c = \<lparr>mention_id = i, conversation_id = c, created_at = Some 0\<rparr>"

definition sample_bot :: bot where
  "sample_bot = \<lparr>twitter_me_id = 1, tweet_response_limit = 35, mentions_found = 0,
     mentions_replied = 0, mentions_replied_errors = 0\<rparr>"

definition empty_world :: world where
  "empty_world = \<lparr>store = [], trace = []\<rparr>"

definition post_ok :: "int \<Rightarrow> error + string" where
  "post_ok i = Inr ''99''"

definition post_fails_for :: "int \<Rightarrow> int \<Rightarrow> error + string" where
  "post_fails_for j i = (if i = j then Inl (ServiceError ''403 Forbidden'') else Inr ''99'')"

definition sample_tweet :: "int \<Rightarrow> tweet" where
  "sample_tweet i = \<lparr>tweet_id = i, tweet_text = ''DAOs are overrated''\<rparr>"

text \<open>A table that already holds the reply to conversation tweet \<open>x\<close>.\<close>

definition replied_world :: "int \<Rightarrow> world" where
  "replied_world x = \<lparr>store = [reply_record (sample_tweet x) ''98'' ''ok'' ''0'' ''0''], trace = []\<rparr>"

text \<open>The mentions \<open>101, ..., 100 + n\<close>, of the conversations \<open>1, ..., n\<close>.\<close>

definition sample_mentions :: "nat \<Rightarrow> mention list" where
  "sample_mentions n = map (\<lambda>i. sample_mention (100 + int i) (Some (int i))) [1..<Suc n]"

text \<open>A bot that has counted an earlier run.\<close>

definition stale_bot :: bot where
  "stale_bot = sample_bot\<lparr>mentions_found := 3, mentions_replied := 2, mentions_replied_errors := 1\<rparr>"

section \<open>Auxiliary facts\<close>

subsection \<open>The table\<close>

lemma store_emit [simp]: "store (emit e w) = store w"
  by (simp add: emit_def)

lemma trace_emit [simp]: "trace (emit e w) = trace w @ [e]"
  by (simp add: emit_def)

lemma scan_records_iff:
  "scan_records rows k \<longleftrightarrow> (\<exists>r\<in>set rows. map_of r ''mentioned_conversation_tweet_id'' = Some k)"
  by (induction rows) auto

lemma set_record_keys:
  "set (record_keys rows) = {k. \<exists>r\<in>set rows. map_of r ''mentioned_conversation_tweet_id'' = Some k}"
  by (force simp: record_keys_def List.map_filter_def)

lemma record_keys_snoc:
  "record_keys (rows @ [r]) =
     record_keys rows @ (case map_of r ''mentioned_conversation_tweet_id'' of None \<Rightarrow> [] | Some k \<Rightarrow> [k])"
  by (simp add: record_keys_def List.map_filter_def split: option.splits)

lemma reply_record_key:
  "map_of (reply_record ct rid text now at) ''mentioned_conversation_tweet_id'' = Some (str (tweet_id ct))"
  by (simp add: reply_record_def)

lemma at_most_one_record_snoc:
  assumes "at_most_one_record rows" and "\<not> scan_records rows (str (tweet_id ct))"
  shows "at_most_one_record (rows @ [reply_record ct rid text now at])"
  using assms
  by (simp add: at_most_one_record_def record_keys_snoc reply_record_key scan_records_iff set_record_keys)

lemma generate_response_store: "store (snd (generate_response env t w)) = store w"
  by (simp add: generate_response_def Let_def)

lemma respond_to_mention_store:
  "store (snd (snd (respond_to_mention env m ct b w))) = store w \<or>
   (\<exists>rid text now at. store (snd (snd (respond_to_mention env m ct b w))) =
      store w @ [reply_record ct rid text now at])"
  by (auto simp: respond_to_mention_def generate_response_def Let_def
      split: prod.splits sum.splits option.splits)

lemma check_already_responded_store: "store (snd (check_already_responded env i w)) = store w"
  by (simp add: check_already_responded_def split: option.splits)

lemma get_mention_conversation_tweet_store:
  "store (snd (get_mention_conversation_tweet env m w)) = store w"
  by (simp add: get_mention_conversation_tweet_def split: option.splits)

lemma body_at_most_one_record:
  assumes "at_most_one_record (store w)"
  shows "at_most_one_record (store (snd (snd (respond_to_mentions_body env m b w))))"
proof (cases "get_mention_conversation_tweet env m w")
  case (Pair r w1)
  have s1: "store w1 = store w"
    using get_mention_conversation_tweet_store [of env m w] Pair by simp
  show ?thesis
  proof (cases r)
    case (Inl e)
    with Pair s1 assms show ?thesis by (simp add: respond_to_mentions_body_def)
  next
    case (Inr data)
    show ?thesis
    proof (cases data)
      case None
      with Pair Inr s1 assms show ?thesis by (simp add: respond_to_mentions_body_def)
    next
      case (Some ct)
      show ?thesis
      proof (cases "tweet_id ct \<noteq> mention_id m")
        case False
        with Pair Inr Some s1 assms show ?thesis by (simp add: respond_to_mentions_body_def)
      next
        case True
        obtain c w2 where chk: "check_already_responded env (tweet_id ct) w1 = (c, w2)"
          by (cases "check_already_responded env (tweet_id ct) w1")
        have s2: "store w2 = store w"
          using check_already_responded_store [of env "tweet_id ct" w1] chk s1 by simp
        show ?thesis
        proof (cases "c = Inr False")
          case False
          with Pair Inr Some True chk s2 assms show ?thesis
            by (cases c) (auto simp: respond_to_mentions_body_def)
        next
          case c: True
          have fresh: "\<not> scan_records (store w) (str (tweet_id ct))"
            using chk c s1 by (auto simp: check_already_responded_def split: option.splits)
          obtain r3 b3 w3 where rm: "respond_to_mention env m ct b w2 = (r3, b3, w3)"
            by (cases "respond_to_mention env m ct b w2")
          have "at_most_one_record (store w3)"
            using respond_to_mention_store [of env m ct b w2] rm s2 assms fresh
            by (auto simp: at_most_one_record_snoc)
          with Pair Inr Some True chk c rm show ?thesis
            by (cases r3) (simp_all add: respond_to_mentions_body_def)
        qed
      qed
    qed
  qed
qed

lemma loop_at_most_one_record:
  "at_most_one_record (store w) \<Longrightarrow>
   at_most_one_record (store (snd (snd (respond_to_mentions_loop env ms b w))))"
proof (induction ms arbitrary: b w)
  case Nil
  then show ?case by simp
next
  case (Cons m ms)
  obtain r b1 w1 where body: "respond_to_mentions_body env m b w = (r, b1, w1)"
    by (cases "respond_to_mentions_body env m b w")
  have inv1: "at_most_one_record (store w1)"
    using body_at_most_one_record [OF Cons.prems, of env m b] body by simp
  show ?case
    using body inv1 Cons.IH [OF inv1] by (cases r) simp_all
qed

lemma get_mentions_store: "store (snd (get_mentions env b w)) = store w"
  by (simp add: get_mentions_def Let_def)

lemma respond_to_mentions_fetched:
  assumes "get_mentions env b w = (Inr (Some ms), w1)" and "ms \<noteq> []"
  shows "snd (respond_to_mentions env b w) =
         snd (respond_to_mentions_loop env (slice_to (tweet_response_limit b) ms)
                (b\<lparr>mentions_found := int (length ms)\<rparr>) w1)"
  using assms
  by (cases ms) (auto simp: respond_to_mentions_def Let_def split: sum.splits prod.splits)

lemma respond_to_mentions_empty:
  assumes "get_mentions env b w = (Inr fetched, w1)" and "fetched = None \<or> fetched = Some []"
  shows "respond_to_mentions env b w = (Inr None, b, emit (Print NoMentionsFound) w1)"
  using assms by (auto simp: respond_to_mentions_def)

lemma respond_to_mentions_fetch_raises:
  assumes "get_mentions env b w = (Inl e, w1)"
  shows "respond_to_mentions env b w = (Inl e, b, w1)"
  using assms by (simp add: respond_to_mentions_def)

lemma run_at_most_one_record:
  assumes "at_most_one_record (store w)"
  shows "at_most_one_record (store (snd (snd (respond_to_mentions env b w))))"
proof -
  obtain r w1 where gm: "get_mentions env b w = (r, w1)"
    by (cases "get_mentions env b w")
  have inv1: "at_most_one_record (store w1)"
    using get_mentions_store [of env b w] gm assms by simp
  show ?thesis
  proof (cases r)
    case (Inl e)
    with gm inv1 show ?thesis by (simp add: respond_to_mentions_fetch_raises)
  next
    case (Inr fetched)
    show ?thesis
    proof (cases "fetched = None \<or> fetched = Some []")
      case True
      with gm Inr inv1 show ?thesis by (simp add: respond_to_mentions_empty)
    next
      case False
      then obtain ms where "fetched = Some ms" and "ms \<noteq> []" by (cases fetched) auto
      with gm Inr show ?thesis
        by (simp add: respond_to_mentions_fetched loop_at_most_one_record [OF inv1])
    qed
  qed
qed

subsection \<open>The history\<close>

lemma resolved_ids_append: "resolved_ids (xs @ ys) = resolved_ids xs @ resolved_ids ys"
  by (induction xs rule: resolved_ids.induct) simp_all

lemma reply_targets_append: "reply_targets (xs @ ys) = reply_targets xs @ reply_targets ys"
  by (induction xs rule: reply_targets.induct) simp_all

lemma loop_append:
  "respond_to_mentions_loop env (xs @ ys) b w =
     (case respond_to_mentions_loop env xs b w of
        (Inl e, b1, w1) \<Rightarrow> (Inl e, b1, w1)
      | (Inr u, b1, w1) \<Rightarrow> respond_to_mentions_loop env ys b1 w1)"
  by (induction xs arbitrary: b w) (auto split: prod.splits sum.splits)

lemma respond_to_mention_trace:
  "\<exists>evs. trace (snd (snd (respond_to_mention env m ct b w))) = trace w @ evs \<and>
     resolved_ids evs = [] \<and> (reply_targets evs = [] \<or> reply_targets evs = [mention_id m])"
proof -
  let ?p = "[SystemMessage system_template, HumanMessage (tweet_text ct)]"
  let ?w1 = "emit (Call_llm_invoke ?p) w"
  have gen: "generate_response env (tweet_text ct) w = (llm_invoke env (trace w) ?p, ?w1)"
    by (simp add: generate_response_def Let_def)
  show ?thesis
  proof (cases "llm_invoke env (trace w) ?p")
    case (Inl e)
    with gen show ?thesis by (simp add: respond_to_mention_def)
  next
    case (Inr reply)
    show ?thesis
    proof (cases "create_tweet env (trace ?w1) reply (mention_id m)")
      case e: (Inl e)
      with gen Inr show ?thesis by (simp add: respond_to_mention_def Let_def)
    next
      case rid: (Inr rid)
      show ?thesis
      proof (cases "created_at m")
        case None
        with gen Inr rid show ?thesis by (simp add: respond_to_mention_def Let_def)
      next
        case (Some t)
        with gen Inr rid show ?thesis
          by (simp add: respond_to_mention_def Let_def split: option.splits)
      qed
    qed
  qed
qed

lemma body_trace:
  assumes body: "respond_to_mentions_body env m b w = (r, b1, w1)"
  shows "\<exists>evs. trace w1 = trace w @ evs \<and>
     (reply_targets evs = [] \<or> reply_targets evs = [mention_id m]) \<and>
     (case conversation_id m of
        None \<Rightarrow> r = Inl AttributeError \<and> evs = []
      | Some c \<Rightarrow> resolved_ids evs = [c])"
proof (cases "conversation_id m")
  case None
  then show ?thesis
    using body by (auto simp: respond_to_mentions_body_def get_mention_conversation_tweet_def)
next
  case (Some c)
  let ?w1 = "emit (Call_get_tweet c) w"
  have gm: "get_mention_conversation_tweet env m w = (get_tweet env (trace w) c, ?w1)"
    using Some by (simp add: get_mention_conversation_tweet_def)
  have short: "w1 = ?w1 \<Longrightarrow> ?thesis"
    using Some by simp
  show ?thesis
  proof (cases "get_tweet env (trace w) c")
    case (Inl e)
    with gm body have "w1 = ?w1" by (simp add: respond_to_mentions_body_def)
    then show ?thesis by (rule short)
  next
    case (Inr data)
    show ?thesis
    proof (cases data)
      case None
      with gm Inr body have "w1 = ?w1" by (simp add: respond_to_mentions_body_def)
      then show ?thesis by (rule short)
    next
      case ct: (Some ct)
      show ?thesis
      proof (cases "tweet_id ct \<noteq> mention_id m")
        case False
        with gm Inr ct body have "w1 = ?w1" by (simp add: respond_to_mentions_body_def)
        then show ?thesis by (rule short)
      next
        case True
        let ?w2 = "emit Call_airtable_get_all ?w1"
        have mid: "w1 = ?w2 \<Longrightarrow> ?thesis"
          using Some by simp
        obtain c2 where c2: "check_already_responded env (tweet_id ct) ?w1 = (c2, ?w2)"
          by (cases "airtable_get_all env (trace ?w1)") (simp_all add: check_already_responded_def)
        show ?thesis
        proof (cases "c2 = Inr False")
          case False
          then have "w1 = ?w2"
            using gm Inr ct True c2 body
            by (cases c2) (auto simp: respond_to_mentions_body_def)
          then show ?thesis by (rule mid)
        next
          case c: True
          obtain evs where evs: "trace (snd (snd (respond_to_mention env m ct b ?w2))) = trace ?w2 @ evs"
            "resolved_ids evs = []" "reply_targets evs = [] \<or> reply_targets evs = [mention_id m]"
            using respond_to_mention_trace [of env m ct b ?w2] by blast
          have "w1 = snd (snd (respond_to_mention env m ct b ?w2))"
            using gm Inr ct True c2 c body
            by (auto simp: respond_to_mentions_body_def split: prod.splits sum.splits)
          then have t: "trace w1 = trace w @ ([Call_get_tweet c, Call_airtable_get_all] @ evs)"
            using evs(1) by simp
          have r: "resolved_ids ([Call_get_tweet c, Call_airtable_get_all] @ evs) = [c]"
            using evs(2) by (simp add: resolved_ids_append)
          have p: "reply_targets ([Call_get_tweet c, Call_airtable_get_all] @ evs) = reply_targets evs"
            by (simp add: reply_targets_append)
          show ?thesis
            apply (rule exI [of _ "[Call_get_tweet c, Call_airtable_get_all] @ evs"])
            using t r p evs(3) Some apply simp
            done
        qed
      qed
    qed
  qed
qed

lemma loop_trace:
  "\<exists>evs. trace (snd (snd (respond_to_mentions_loop env ms b w))) = trace w @ evs \<and>
     prefix (resolved_ids evs) (List.map_filter conversation_id ms) \<and>
     subseq (reply_targets evs) (map mention_id ms)"
proof (induction ms arbitrary: b w)
  case Nil
  show ?case by simp
next
  case (Cons m ms)
  obtain r b1 w1 where body: "respond_to_mentions_body env m b w = (r, b1, w1)"
    by (cases "respond_to_mentions_body env m b w")
  obtain evs1 where evs1: "trace w1 = trace w @ evs1"
    "reply_targets evs1 = [] \<or> reply_targets evs1 = [mention_id m]"
    "case conversation_id m of None \<Rightarrow> r = Inl AttributeError \<and> evs1 = []
      | Some c \<Rightarrow> resolved_ids evs1 = [c]"
    using body_trace [OF body] by blast
  show ?case
  proof (cases r)
    case (Inl e)
    then have res: "respond_to_mentions_loop env (m # ms) b w = (Inl e, b1, w1)"
      using body by simp
    have "prefix (resolved_ids evs1) (List.map_filter conversation_id (m # ms))"
      using evs1(3) by (cases "conversation_id m") (simp_all add: List.map_filter_def)
    moreover have "subseq (reply_targets evs1) (map mention_id (m # ms))"
      using evs1(2) by auto
    ultimately show ?thesis using res evs1(1) by auto
  next
    case (Inr u)
    then have res: "respond_to_mentions_loop env (m # ms) b w = respond_to_mentions_loop env ms b1 w1"
      using body by simp
    obtain c where c: "conversation_id m = Some c" "resolved_ids evs1 = [c]"
      using evs1(3) Inr by (cases "conversation_id m") auto
    obtain evs2 where evs2: "trace (snd (snd (respond_to_mentions_loop env ms b1 w1))) = trace w1 @ evs2"
      "prefix (resolved_ids evs2) (List.map_filter conversation_id ms)"
      "subseq (reply_targets evs2) (map mention_id ms)"
      using Cons.IH [of b1 w1] by blast
    have "trace (snd (snd (respond_to_mentions_loop env (m # ms) b w))) = trace w @ (evs1 @ evs2)"
      using res evs1(1) evs2(1) by simp
    moreover have "prefix (resolved_ids (evs1 @ evs2)) (List.map_filter conversation_id (m # ms))"
      using c evs2(2) by (simp add: resolved_ids_append List.map_filter_def)
    moreover have "subseq (reply_targets (evs1 @ evs2)) (map mention_id (m # ms))"
      using evs1(2) evs2(3) by (auto simp: reply_targets_append)
    ultimately show ?thesis by blast
  qed
qed

subsection \<open>The counters\<close>

lemma add_counts_add_counts:
  "add_counts r2 e2 (add_counts r1 e1 b) = add_counts (r1 + r2) (e1 + e2) b"
  by (simp add: add_counts_def)

lemma add_counts_zero: "add_counts 0 0 b = b"
  by (simp add: add_counts_def)

lemma respond_to_mention_shift:
  "\<exists>r dr de w'. \<forall>b. respond_to_mention env m ct b w = (r, add_counts dr de b, w')"
proof -
  let ?p = "[SystemMessage system_template, HumanMessage (tweet_text ct)]"
  let ?w1 = "emit (Call_llm_invoke ?p) w"
  have gen: "generate_response env (tweet_text ct) w = (llm_invoke env (trace w) ?p, ?w1)"
    by (simp add: generate_response_def Let_def)
  show ?thesis
  proof (cases "llm_invoke env (trace w) ?p")
    case (Inl e)
    with gen have "\<forall>b. respond_to_mention env m ct b w = (Inl e, add_counts 0 0 b, ?w1)"
      by (simp add: respond_to_mention_def add_counts_zero)
    then show ?thesis by blast
  next
    case (Inr reply)
    let ?w2 = "emit (Call_create_tweet reply (mention_id m)) ?w1"
    show ?thesis
    proof (cases "create_tweet env (trace ?w1) reply (mention_id m)")
      case e: (Inl e)
      with gen Inr have "\<forall>b. respond_to_mention env m ct b w =
          (Inr None, add_counts 0 1 b, emit (Print (PrintedError e)) ?w2)"
        by (simp add: respond_to_mention_def Let_def add_counts_def)
      then show ?thesis by blast
    next
      case rid: (Inr rid)
      show ?thesis
      proof (cases "created_at m")
        case None
        with gen Inr rid have "\<forall>b. respond_to_mention env m ct b w =
            (Inl AttributeError, add_counts 1 0 b, ?w2)"
          by (simp add: respond_to_mention_def Let_def add_counts_def)
        then show ?thesis by blast
      next
        case (Some t)
        let ?entry = "reply_record ct rid reply (isoformat env (utcnow env (trace ?w2))) (isoformat_aware env t)"
        show ?thesis
        proof (cases "airtable_insert env (trace ?w2) ?entry")
          case None
          with gen Inr rid Some have "\<forall>b. respond_to_mention env m ct b w =
            (Inr (Some True), add_counts 1 0 b,
             (emit (Call_airtable_insert ?entry) ?w2)\<lparr>store := store w @ [?entry]\<rparr>)"
            by (simp add: respond_to_mention_def Let_def add_counts_def)
          then show ?thesis by blast
        next
          case ins: (Some e)
          with gen Inr rid Some have "\<forall>b. respond_to_mention env m ct b w =
            (Inl e, add_counts 1 0 b, emit (Call_airtable_insert ?entry) ?w2)"
            by (simp add: respond_to_mention_def Let_def add_counts_def)
          then show ?thesis by blast
        qed
      qed
    qed
  qed
qed

lemma body_shift:
  "\<exists>r dr de w'. \<forall>b. respond_to_mentions_body env m b w = (r, add_counts dr de b, w')"
proof -
  obtain g w1 where gm: "get_mention_conversation_tweet env m w = (g, w1)"
    by (cases "get_mention_conversation_tweet env m w")
  have still: "\<exists>r. \<forall>b. respond_to_mentions_body env m b w = (r, b, w'') \<Longrightarrow> ?thesis" for w''
    by (metis add_counts_zero)
  show ?thesis
  proof (cases g)
    case (Inl e)
    with gm show ?thesis by (intro still) (simp add: respond_to_mentions_body_def)
  next
    case (Inr data)
    show ?thesis
    proof (cases data)
      case None
      with gm Inr show ?thesis by (intro still) (simp add: respond_to_mentions_body_def)
    next
      case (Some ct)
      show ?thesis
      proof (cases "tweet_id ct \<noteq> mention_id m")
        case False
        with gm Inr Some show ?thesis by (intro still) (simp add: respond_to_mentions_body_def)
      next
        case True
        obtain c w2 where chk: "check_already_responded env (tweet_id ct) w1 = (c, w2)"
          by (cases "check_already_responded env (tweet_id ct) w1")
        show ?thesis
        proof (cases "c = Inr False")
          case False
          with gm Inr Some True chk show ?thesis
            by (intro still, cases c) (auto simp: respond_to_mentions_body_def)
        next
          case c: True
          obtain r dr de w3 where
            rm: "\<forall>b. respond_to_mention env m ct b w2 = (r, add_counts dr de b, w3)"
            using respond_to_mention_shift [of env m ct w2] by blast
          have "\<forall>b. respond_to_mentions_body env m b w =
              ((case r of Inl e \<Rightarrow> Inl e | Inr u \<Rightarrow> Inr ()), add_counts dr de b, w3)"
            using gm Inr Some True chk c rm
            by (simp add: respond_to_mentions_body_def split: sum.splits)
          then show ?thesis by blast
        qed
      qed
    qed
  qed
qed

lemma loop_shift:
  "\<exists>r dr de w'. \<forall>b. respond_to_mentions_loop env ms b w = (r, add_counts dr de b, w')"
proof (induction ms arbitrary: w)
  case Nil
  have "\<forall>b. respond_to_mentions_loop env [] b w = (Inr (), add_counts 0 0 b, w)"
    by (simp add: add_counts_zero)
  then show ?case by blast
next
  case (Cons m ms)
  obtain r1 d1 e1 w1 where
    body: "\<forall>b. respond_to_mentions_body env m b w = (r1, add_counts d1 e1 b, w1)"
    using body_shift [of env m w] by blast
  show ?case
  proof (cases r1)
    case (Inl e)
    with body have "\<forall>b. respond_to_mentions_loop env (m # ms) b w = (Inl e, add_counts d1 e1 b, w1)"
      by simp
    then show ?thesis by blast
  next
    case (Inr u)
    obtain r2 d2 e2 w2 where
      rest: "\<forall>b. respond_to_mentions_loop env ms b w1 = (r2, add_counts d2 e2 b, w2)"
      using Cons.IH [of w1] by blast
    have "\<forall>b. respond_to_mentions_loop env (m # ms) b w =
        (r2, add_counts (d1 + d2) (e1 + e2) b, w2)"
      using body Inr rest by (simp add: add_counts_add_counts)
    then show ?thesis by blast
  qed
qed

lemma loop_mentions_found:
  "mentions_found (fst (snd (respond_to_mentions_loop env ms b w))) = mentions_found b"
  using loop_shift [of env ms w] by (auto simp: add_counts_def)

lemma new_events_append [simp]: "trace w' = trace w @ evs \<Longrightarrow> new_events w w' = evs"
  by (simp add: new_events_def)

lemma get_mention_conversation_tweet_Some:
  assumes "get_mention_conversation_tweet env m w = (Inr (Some ct), w1)"
  shows "\<exists>cid. conversation_id m = Some cid \<and> w1 = emit (Call_get_tweet cid) w"
  using assms by (auto simp: get_mention_conversation_tweet_def split: option.splits)

lemma TwitterBot_init_counters:
  assumes "TwitterBot_init env w0 = (Inr b, w)"
  shows "mentions_found b = 0 \<and> mentions_replied b = 0 \<and> mentions_replied_errors b = 0
       \<and> tweet_response_limit b = 35 \<and> store w = store w0"
  using assms by (auto simp: TwitterBot_init_def get_me_id_def split: sum.splits)

section \<open>The claims\<close>

subsection \<open>A mention that is its own conversation root\<close>

text \<open>
  C1, as amended. The loop replies only when the conversation tweet's id differs from the
  mention's (\<^verbatim>\<open>mentioned_conversation_tweet.id != mention.id and not ...\<close>). So a
  mention whose resolved conversation tweet has the mention's own id is skipped: the
  body returns without an exception, the counters and the table are untouched, the only
  call made for the mention is the \<^verbatim>\<open>get_tweet\<close> that resolved it (the table is not
  read, nothing is generated, nothing is posted), and the loop goes on with the next
  mention. This holds whatever rows the table has.
\<close>

theorem root_mention_skipped:
  assumes resolve: "get_mention_conversation_tweet env m w = (Inr (Some ct), w1)"
      and root: "tweet_id ct = mention_id m"
  shows "respond_to_mentions_body env m b w = (Inr (), b, w1)
       \<and> store w1 = store w
       \<and> (\<exists>cid. conversation_id m = Some cid \<and> new_events w w1 = [Call_get_tweet cid])
       \<and> respond_to_mentions_loop env (m # rest) b w = respond_to_mentions_loop env rest b w1"
proof -
  have body: "respond_to_mentions_body env m b w = (Inr (), b, w1)"
    using resolve root by (simp add: respond_to_mentions_body_def)
  obtain cid where cid: "conversation_id m = Some cid" "w1 = emit (Call_get_tweet cid) w"
    using get_mention_conversation_tweet_Some [OF resolve] by blast
  from body cid show ?thesis by simp
qed

text \<open>The theorem at mention 7 of conversation 7, with a table that already holds a
  reply to tweet 7.\<close>

theorem root_mention_skipped_witness:
  "get_mention_conversation_tweet
     (sample_env (Some [sample_mention 7 (Some 7)]) post_ok (Inr ''ok'') None)
     (sample_mention 7 (Some 7)) (replied_world 7)
   = (Inr (Some (sample_tweet 7)), emit (Call_get_tweet 7) (replied_world 7))
   \<and> tweet_id (sample_tweet 7) = mention_id (sample_mention 7 (Some 7))
   \<and> respond_to_mentions_body
        (sample_env (Some [sample_mention 7 (Some 7)]) post_ok (Inr ''ok'') None)
        (sample_mention 7 (Some 7)) sample_bot (replied_world 7)
      = (Inr (), sample_bot, emit (Call_get_tweet 7) (replied_world 7))
   \<and> store (emit (Call_get_tweet 7) (replied_world 7)) = store (replied_world 7)"
proof -
  let ?env = "sample_env (Some [sample_mention 7 (Some 7)]) post_ok (Inr ''ok'') None"
  have h1: "get_mention_conversation_tweet ?env (sample_mention 7 (Some 7)) (replied_world 7)
      = (Inr (Some (sample_tweet 7)), emit (Call_get_tweet 7) (replied_world 7))"
    by code_simp
  have h2: "tweet_id (sample_tweet 7) = mention_id (sample_mention 7 (Some 7))"
    by code_simp
  from root_mention_skipped [OF h1 h2, of sample_bot] h1 h2 show ?thesis by blast
qed

text \<open>
  The claim as first stated (a reply is generated and posted for such a mention) fails:
  a run that fetches the one mention 7 of conversation 7, on an empty table, with a
  model and a posting call that would both succeed, makes two calls only (the fetch and
  the \<^verbatim>\<open>get_tweet\<close>), and ends with nothing replied and nothing logged.
\<close>

theorem root_mention_counterexample:
  "get_mention_conversation_tweet
     (sample_env (Some [sample_mention 7 (Some 7)]) post_ok (Inr ''ok'') None)
     (sample_mention 7 (Some 7)) \<lparr>store = [], trace = [Call_get_users_mentions 1 ''-1200'']\<rparr>
   = (Inr (Some (sample_tweet 7)),
      \<lparr>store = [], trace = [Call_get_users_mentions 1 ''-1200'', Call_get_tweet 7]\<rparr>)
   \<and> tweet_id (sample_tweet 7) = mention_id (sample_mention 7 (Some 7))
   \<and> respond_to_mentions
        (sample_env (Some [sample_mention 7 (Some 7)]) post_ok (Inr ''ok'') None)
        sample_bot empty_world
   = (Inr (Some True), sample_bot\<lparr>mentions_found := 1\<rparr>,
      \<lparr>store = [], trace = [Call_get_users_mentions 1 ''-1200'', Call_get_tweet 7]\<rparr>)
   \<and> mentions_replied (sample_bot\<lparr>mentions_found := 1\<rparr>) = 0"
  by code_simp

subsection \<open>A mention that does not resolve\<close>

text \<open>
  C3. \<^verbatim>\<open>get_mention_conversation_tweet\<close> returns \<^verbatim>\<open>None\<close> for a mention without
  a conversation id, and the loop then reads \<^verbatim>\<open>.id\<close> of that \<^verbatim>\<open>None\<close>. A run that
  fetches such a mention (id 10) followed by an ordinary one (id 11, conversation 5)
  ends in \<^verbatim>\<open>AttributeError\<close> at the first: the second mention is never looked at.
\<close>

theorem unresolvable_mention_raises:
  "respond_to_mentions
     (sample_env (Some [sample_mention 10 None, sample_mention 11 (Some 5)]) post_ok (Inr ''ok'') None)
     sample_bot empty_world
   = (Inl AttributeError, sample_bot\<lparr>mentions_found := 2\<rparr>,
      \<lparr>store = [], trace = [Call_get_users_mentions 1 ''-1200'']\<rparr>)"
  by code_simp

lemma execute_replies_returns:
  assumes "respond_to_mentions env b
             (emit (Print (StartingJob (isoformat env (utcnow env (trace ws))))) ws) = (Inr r, b1, w1)"
  shows "execute_replies env b ws =
           (Inr (), b1,
            emit (Print (FinishedJob (isoformat env (utcnow env (trace w1)))
                    (mentions_found b1) (mentions_replied b1) (mentions_replied_errors b1))) w1)"
  using assms by (simp add: execute_replies_def Let_def)

lemma execute_replies_bot:
  "fst (snd (execute_replies env b ws)) =
   fst (snd (respond_to_mentions env b
               (emit (Print (StartingJob (isoformat env (utcnow env (trace ws))))) ws)))"
  by (simp add: execute_replies_def Let_def split: prod.splits sum.splits)

lemma job_runs:
  assumes "TwitterBot_init env
             (emit (Print (JobExecutedAt (isoformat env (utcnow env (trace wj))))) wj) = (Inr b, ws)"
      and "execute_replies env b ws = (r, b2, w2)"
  shows "job env wj = (r, w2)"
  using assms by (simp add: job_def Let_def)

subsection \<open>No mentions\<close>

text \<open>
  C7. Take a bot whose three counters are zero, in any world, and let the fetch return
  no mentions (\<^verbatim>\<open>None\<close> or an empty list). Then \<^verbatim>\<open>respond_to_mentions\<close> returns at
  once (with \<^verbatim>\<open>None\<close>): the bot is as it was, so the three counters are zero, the table
  is as it was, and the run has made one call, the fetch itself, and printed one line;
  neither the table nor the model is reached. When the run is the one that
  \<^verbatim>\<open>execute_replies\<close> starts, \<^verbatim>\<open>execute_replies\<close> returns with that bot and reports
  zero found, zero replied, zero errors; and when the bot is the one that \<^verbatim>\<open>job\<close> has
  just built, that is how the job ends.
\<close>

theorem empty_window:
  fixes env b w1
  defines "wn \<equiv> emit (Print NoMentionsFound) w1"
  defines "wend \<equiv> emit (Print (FinishedJob (isoformat env (utcnow env (trace wn))) 0 0 0)) wn"
  assumes found: "mentions_found b = 0"
      and replied: "mentions_replied b = 0"
      and errors: "mentions_replied_errors b = 0"
      and fetch: "get_mentions env b w = (Inr fetched, w1)"
      and none: "fetched = None \<or> fetched = Some []"
  shows "respond_to_mentions env b w = (Inr None, b, wn)
       \<and> mentions_found (fst (snd (respond_to_mentions env b w))) = 0
       \<and> mentions_replied (fst (snd (respond_to_mentions env b w))) = 0
       \<and> mentions_replied_errors (fst (snd (respond_to_mentions env b w))) = 0
       \<and> store wn = store w
       \<and> new_events w wn =
           [Call_get_users_mentions (twitter_me_id b) (strftime env (utcnow env (trace w) - 20 * 60)),
            Print NoMentionsFound]
       \<and> (w = emit (Print (StartingJob (isoformat env (utcnow env (trace ws))))) ws \<longrightarrow>
            execute_replies env b ws = (Inr (), b, wend)
            \<and> (TwitterBot_init env
                  (emit (Print (JobExecutedAt (isoformat env (utcnow env (trace wj))))) wj)
                = (Inr b, ws) \<longrightarrow> job env wj = (Inr (), wend)))"
proof -
  have w1: "w1 = emit (Call_get_users_mentions (twitter_me_id b)
                    (strftime env (utcnow env (trace w) - 20 * 60))) w"
    using fetch by (auto simp: get_mentions_def Let_def)
  have run: "respond_to_mentions env b w = (Inr None, b, wn)"
    unfolding wn_def by (rule respond_to_mentions_empty [OF fetch none])
  have ev: "new_events w wn =
      [Call_get_users_mentions (twitter_me_id b) (strftime env (utcnow env (trace w) - 20 * 60)),
       Print NoMentionsFound]"
    by (rule new_events_append) (simp add: wn_def w1)
  have st: "store wn = store w"
    by (simp add: wn_def w1)
  have exec: "execute_replies env b ws = (Inr (), b, wend)"
    if "w = emit (Print (StartingJob (isoformat env (utcnow env (trace ws))))) ws"
    using execute_replies_returns [of env b ws None b wn] run that found replied errors
    by (simp add: wend_def)
  have "job env wj = (Inr (), wend)"
    if "w = emit (Print (StartingJob (isoformat env (utcnow env (trace ws))))) ws"
      and "TwitterBot_init env
             (emit (Print (JobExecutedAt (isoformat env (utcnow env (trace wj))))) wj) = (Inr b, ws)"
    using job_runs [OF that(2) exec [OF that(1)]] .
  with run ev st exec found replied errors show ?thesis by simp
qed

text \<open>
  The theorem on a job whose fetch returns \<^verbatim>\<open>None\<close>: the bot is the one the job has
  built, the run is the one \<^verbatim>\<open>execute_replies\<close> starts, and the job ends having made
  two calls (\<^verbatim>\<open>get_me\<close> and the fetch) and reported zero three times.
\<close>

theorem empty_window_witness:
  "TwitterBot_init (sample_env None post_ok (Inr ''ok'') None)
     (emit (Print (JobExecutedAt ''0'')) empty_world)
     = (Inr sample_bot, emit Call_get_me (emit (Print (JobExecutedAt ''0'')) empty_world))
   \<and> mentions_found sample_bot = 0 \<and> mentions_replied sample_bot = 0
   \<and> mentions_replied_errors sample_bot = 0
   \<and> get_mentions (sample_env None post_ok (Inr ''ok'') None) sample_bot
        \<lparr>store = [], trace = [Print (JobExecutedAt ''0''), Call_get_me, Print (StartingJob ''0'')]\<rparr>
     = (Inr None,
        \<lparr>store = [],
         trace = [Print (JobExecutedAt ''0''), Call_get_me, Print (StartingJob ''0''),
                  Call_get_users_mentions 1 ''-1200'']\<rparr>)
   \<and> job (sample_env None post_ok (Inr ''ok'') None) empty_world
     = (Inr (),
        \<lparr>store = [],
         trace = [Print (JobExecutedAt ''0''), Call_get_me, Print (StartingJob ''0''),
                  Call_get_users_mentions 1 ''-1200'', Print NoMentionsFound,
                  Print (FinishedJob ''0'' 0 0 0)]\<rparr>)"
proof -
  let ?env = "sample_env None post_ok (Inr ''ok'') None"
  let ?wj = "emit (Print (JobExecutedAt (isoformat ?env (utcnow ?env (trace empty_world))))) empty_world"
  let ?ws = "emit Call_get_me (emit (Print (JobExecutedAt ''0'')) empty_world)"
  let ?w = "emit (Print (StartingJob (isoformat ?env (utcnow ?env (trace ?ws))))) ?ws"
  let ?w1 = "\<lparr>store = [],
         trace = [Print (JobExecutedAt ''0''), Call_get_me, Print (StartingJob ''0''),
                  Call_get_users_mentions 1 ''-1200'']\<rparr>"
  let ?wn = "emit (Print NoMentionsFound) ?w1"
  have z: "mentions_found sample_bot = 0" "mentions_replied sample_bot = 0"
    "mentions_replied_errors sample_bot = 0"
    by code_simp+
  have h1: "get_mentions ?env sample_bot ?w = (Inr None, ?w1)" by code_simp
  have h2: "TwitterBot_init ?env ?wj = (Inr sample_bot, ?ws)" by code_simp
  have e1: "?wj = emit (Print (JobExecutedAt ''0'')) empty_world" by code_simp
  have e2: "?w = \<lparr>store = [],
      trace = [Print (JobExecutedAt ''0''), Call_get_me, Print (StartingJob ''0'')]\<rparr>"
    by code_simp
  have e3: "emit (Print (FinishedJob (isoformat ?env (utcnow ?env (trace ?wn))) 0 0 0)) ?wn =
      \<lparr>store = [],
       trace = [Print (JobExecutedAt ''0''), Call_get_me, Print (StartingJob ''0''),
                Call_get_users_mentions 1 ''-1200'', Print NoMentionsFound,
                Print (FinishedJob ''0'' 0 0 0)]\<rparr>"
    by code_simp
  have "job ?env empty_world =
      (Inr (), emit (Print (FinishedJob (isoformat ?env (utcnow ?env (trace ?wn))) 0 0 0)) ?wn)"
    using empty_window [OF z h1, of ?ws empty_world] h2 by blast
  with z h1 h2 e1 e2 e3 show ?thesis by simp
qed

lemma execute_replies_at_most_one_record:
  assumes "at_most_one_record (store w)"
  shows "at_most_one_record (store (snd (snd (execute_replies env b w))))"
proof -
  let ?w0 = "emit (Print (StartingJob (isoformat env (utcnow env (trace w))))) w"
  have "at_most_one_record (store ?w0)" using assms by simp
  from run_at_most_one_record [OF this, of env b] show ?thesis
    by (auto simp: execute_replies_def Let_def split: prod.splits sum.splits)
qed

lemma job_at_most_one_record:
  assumes "at_most_one_record (store w)"
  shows "at_most_one_record (store (snd (job env w)))"
proof -
  let ?w0 = "emit (Print (JobExecutedAt (isoformat env (utcnow env (trace w))))) w"
  obtain r w1 where init: "TwitterBot_init env ?w0 = (r, w1)"
    by (cases "TwitterBot_init env ?w0")
  have s1: "store w1 = store w"
    using init by (auto simp: TwitterBot_init_def get_me_id_def split: sum.splits)
  show ?thesis
  proof (cases r)
    case (Inl e)
    with init s1 assms show ?thesis by (simp add: job_def Let_def)
  next
    case (Inr b)
    have "at_most_one_record (store w1)" using s1 assms by simp
    from execute_replies_at_most_one_record [OF this, of env b] init Inr show ?thesis
      by (auto simp: job_def Let_def split: prod.splits)
  qed
qed

subsection \<open>A conversation that already has a reply\<close>

text \<open>
  C2. Let a mention resolve to a conversation tweet whose id differs from the mention's
  own, and let the table hold a row whose \<^verbatim>\<open>mentioned_conversation_tweet_id\<close> is that
  tweet's id. Then the body of the loop reads the table and does no more: it returns
  (or passes on the exception of the read) with the bot, so \<open>mentions_replied\<close> too,
  unchanged and the table unchanged, and it posts nothing. And no run and no job ever
  makes a second row for an id: a table where no id has two rows is still such a table
  after \<^verbatim>\<open>respond_to_mentions\<close>, and after \<^verbatim>\<open>job\<close>, whatever the services answer.
\<close>

theorem already_replied_not_repeated:
  assumes resolve: "get_mention_conversation_tweet env m w = (Inr (Some ct), w1)"
      and other: "tweet_id ct \<noteq> mention_id m"
      and logged: "\<exists>r\<in>set (store w).
                     map_of r ''mentioned_conversation_tweet_id'' = Some (str (tweet_id ct))"
  shows "respond_to_mentions_body env m b w =
           ((case airtable_get_all env (trace w1) of None \<Rightarrow> Inr () | Some e \<Rightarrow> Inl e),
            b, emit Call_airtable_get_all w1)
       \<and> store (emit Call_airtable_get_all w1) = store w
       \<and> reply_targets (new_events w (emit Call_airtable_get_all w1)) = []
       \<and> (at_most_one_record (store w') \<longrightarrow>
            at_most_one_record (store (snd (snd (respond_to_mentions env' b' w')))) \<and>
            at_most_one_record (store (snd (job env' w'))))"
proof -
  obtain cid where cid: "conversation_id m = Some cid" "w1 = emit (Call_get_tweet cid) w"
    using get_mention_conversation_tweet_Some [OF resolve] by blast
  have found: "scan_records (store w1) (str (tweet_id ct))"
    using logged cid by (simp add: scan_records_iff)
  have body: "respond_to_mentions_body env m b w =
           ((case airtable_get_all env (trace w1) of None \<Rightarrow> Inr () | Some e \<Rightarrow> Inl e),
            b, emit Call_airtable_get_all w1)"
    using resolve other found
    by (simp add: respond_to_mentions_body_def check_already_responded_def split: option.splits)
  have "trace (emit Call_airtable_get_all w1) = trace w @ [Call_get_tweet cid, Call_airtable_get_all]"
    using cid by simp
  then have "new_events w (emit Call_airtable_get_all w1) = [Call_get_tweet cid, Call_airtable_get_all]"
    by (rule new_events_append)
  then have quiet: "reply_targets (new_events w (emit Call_airtable_get_all w1)) = []"
    by simp
  show ?thesis
    using body quiet cid run_at_most_one_record job_at_most_one_record by simp
qed

text \<open>The theorem at mention 10 of conversation 5, with a table that holds the reply to
  tweet 5.\<close>

theorem already_replied_not_repeated_witness:
  "get_mention_conversation_tweet
     (sample_env (Some [sample_mention 10 (Some 5)]) post_ok (Inr ''ok'') None)
     (sample_mention 10 (Some 5)) (replied_world 5)
   = (Inr (Some (sample_tweet 5)), emit (Call_get_tweet 5) (replied_world 5))
   \<and> tweet_id (sample_tweet 5) \<noteq> mention_id (sample_mention 10 (Some 5))
   \<and> map_of (reply_record (sample_tweet 5) ''98'' ''ok'' ''0'' ''0'')
        ''mentioned_conversation_tweet_id'' = Some (str (tweet_id (sample_tweet 5)))
   \<and> respond_to_mentions_body
        (sample_env (Some [sample_mention 10 (Some 5)]) post_ok (Inr ''ok'') None)
        (sample_mention 10 (Some 5)) sample_bot (replied_world 5)
      = (Inr (), sample_bot, emit Call_airtable_get_all (emit (Call_get_tweet 5) (replied_world 5)))
   \<and> at_most_one_record (store (replied_world 5))
   \<and> at_most_one_record (store (snd (snd (respond_to_mentions
        (sample_env (Some [sample_mention 10 (Some 5)]) post_ok (Inr ''ok'') None)
        sample_bot (replied_world 5)))))
   \<and> store (snd (job (sample_env (Some [sample_mention 10 (Some 5)]) post_ok (Inr ''ok'') None)
        (replied_world 5))) = store (replied_world 5)"
proof -
  let ?env = "sample_env (Some [sample_mention 10 (Some 5)]) post_ok (Inr ''ok'') None"
  have h1: "get_mention_conversation_tweet ?env (sample_mention 10 (Some 5)) (replied_world 5)
      = (Inr (Some (sample_tweet 5)), emit (Call_get_tweet 5) (replied_world 5))"
    by code_simp
  have h2: "tweet_id (sample_tweet 5) \<noteq> mention_id (sample_mention 10 (Some 5))"
    by code_simp
  have key: "map_of (reply_record (sample_tweet 5) ''98'' ''ok'' ''0'' ''0'')
        ''mentioned_conversation_tweet_id'' = Some (str (tweet_id (sample_tweet 5)))"
    by code_simp
  have h3: "\<exists>r\<in>set (store (replied_world 5)).
      map_of r ''mentioned_conversation_tweet_id'' = Some (str (tweet_id (sample_tweet 5)))"
    using key by (simp add: replied_world_def)
  have h4: "at_most_one_record (store (replied_world 5))"
    by code_simp
  have g: "airtable_get_all ?env (trace (emit (Call_get_tweet 5) (replied_world 5))) = None"
    by code_simp
  have j: "store (snd (job ?env (replied_world 5))) = store (replied_world 5)"
    by code_simp
  from already_replied_not_repeated [OF h1 h2 h3, of sample_bot "replied_world 5" ?env sample_bot]
    h1 h2 key h4 g j
  show ?thesis by simp
qed

subsection \<open>A new bot for every job\<close>

text \<open>
  C10. \<^verbatim>\<open>job\<close> builds its \<^verbatim>\<open>TwitterBot\<close> before it runs it: when the constructor
  returns (it raises only if \<^verbatim>\<open>get_me\<close> does), the bot it returns has its three
  counters at zero, and the job is \<^verbatim>\<open>execute_replies\<close> on that bot; the bot is dropped
  when the job ends. This holds in every world, so also in the one a previous job has
  left: a job takes no counter from the job before it.
\<close>

theorem job_builds_new_bot:
  assumes init: "TwitterBot_init env
                   (emit (Print (JobExecutedAt (isoformat env (utcnow env (trace w))))) w) = (Inr b, w1)"
  shows "mentions_found b = 0 \<and> mentions_replied b = 0 \<and> mentions_replied_errors b = 0
       \<and> job env w = (fst (execute_replies env b w1), snd (snd (execute_replies env b w1)))"
  using init TwitterBot_init_counters [OF init]
  by (simp add: job_def Let_def split: prod.splits)

text \<open>The theorem at the second of two jobs: the first has replied to one mention and
  printed its count; the second starts from zero again and, finding the reply in the
  table, prints no reply of its own.\<close>

theorem job_builds_new_bot_witness:
  "TwitterBot_init (sample_env (Some [sample_mention 10 (Some 5)]) post_ok (Inr ''ok'') None)
     (emit (Print (JobExecutedAt
        (isoformat (sample_env (Some [sample_mention 10 (Some 5)]) post_ok (Inr ''ok'') None)
           (utcnow (sample_env (Some [sample_mention 10 (Some 5)]) post_ok (Inr ''ok'') None)
              (trace (snd (job (sample_env (Some [sample_mention 10 (Some 5)]) post_ok (Inr ''ok'') None)
                 empty_world)))))))
        (snd (job (sample_env (Some [sample_mention 10 (Some 5)]) post_ok (Inr ''ok'') None)
           empty_world)))
   = (Inr sample_bot,
      emit Call_get_me (emit (Print (JobExecutedAt ''0''))
        (snd (job (sample_env (Some [sample_mention 10 (Some 5)]) post_ok (Inr ''ok'') None)
           empty_world))))
   \<and> mentions_replied sample_bot = 0
   \<and> last (trace (snd (job (sample_env (Some [sample_mention 10 (Some 5)]) post_ok (Inr ''ok'') None)
        empty_world))) = Print (FinishedJob ''0'' 1 1 0)
   \<and> last (trace (snd (job (sample_env (Some [sample_mention 10 (Some 5)]) post_ok (Inr ''ok'') None)
        (snd (job (sample_env (Some [sample_mention 10 (Some 5)]) post_ok (Inr ''ok'') None)
           empty_world))))) = Print (FinishedJob ''0'' 1 0 0)"
proof -
  let ?env = "sample_env (Some [sample_mention 10 (Some 5)]) post_ok (Inr ''ok'') None"
  let ?w = "snd (job ?env empty_world)"
  have h: "TwitterBot_init ?env
      (emit (Print (JobExecutedAt (isoformat ?env (utcnow ?env (trace ?w))))) ?w)
    = (Inr sample_bot, emit Call_get_me (emit (Print (JobExecutedAt ''0'')) ?w))"
    by code_simp
  have first: "last (trace ?w) = Print (FinishedJob ''0'' 1 1 0)"
    by code_simp
  have second: "last (trace (snd (job ?env ?w))) = Print (FinishedJob ''0'' 1 0 0)"
    by code_simp
  from job_builds_new_bot [OF h] h first second show ?thesis by simp
qed

lemma respond_to_mentions_loop_raises:
  assumes "get_mentions env b w = (Inr (Some ms), w1)" and "ms \<noteq> []"
      and "respond_to_mentions_loop env (slice_to (tweet_response_limit b) ms)
             (b\<lparr>mentions_found := int (length ms)\<rparr>) w1 = (Inl e, b2, w2)"
  shows "respond_to_mentions env b w = (Inl e, b2, w2)"
  using assms by (cases ms) (auto simp: respond_to_mentions_def Let_def)

lemma execute_replies_raises:
  assumes "respond_to_mentions env b
             (emit (Print (StartingJob (isoformat env (utcnow env (trace w))))) w) = (Inl e, b1, w1)"
  shows "execute_replies env b w = (Inl e, b1, w1)"
  using assms by (simp add: execute_replies_def Let_def)

lemma body_eligible:
  assumes "get_mention_conversation_tweet env m w = (Inr (Some ct), w1)"
      and "tweet_id ct \<noteq> mention_id m"
      and "check_already_responded env (tweet_id ct) w1 = (Inr False, w2)"
  shows "respond_to_mentions_body env m b w =
           (case respond_to_mention env m ct b w2 of
              (Inl e, b3, w3) \<Rightarrow> (Inl e, b3, w3)
            | (Inr u, b3, w3) \<Rightarrow> (Inr (), b3, w3))"
  using assms by (simp add: respond_to_mentions_body_def)

lemma loop_after_prefix:
  assumes "respond_to_mentions_loop env pre b0 w0 = (Inr (), b, w)"
  shows "respond_to_mentions_loop env (pre @ ms) b0 w0 = respond_to_mentions_loop env ms b w"
  using assms by (simp add: loop_append)

lemma eligible_store:
  assumes "get_mention_conversation_tweet env m w = (Inr (Some ct), w1)"
      and "check_already_responded env (tweet_id ct) w1 = (Inr False, w2)"
  shows "store w2 = store w \<and> \<not> scan_records (store w) (str (tweet_id ct))"
  using assms get_mention_conversation_tweet_store [of env m w]
    check_already_responded_store [of env "tweet_id ct" w1]
  by (auto simp: check_already_responded_def split: option.splits)

subsection \<open>A posting call that raises\<close>

text \<open>
  C4. Take a mention that the loop reaches (the mentions before it went through without
  an exception), that is to be answered (it resolves to another tweet, which has no row)
  and for which the model returns a reply. If \<^verbatim>\<open>create_tweet\<close> raises for it, then
  \<^verbatim>\<open>respond_to_mention\<close> returns normally: \<open>mentions_replied_errors\<close> is one more,
  \<open>mentions_replied\<close> and the table are as before, the history gains the posting call
  and the printed exception but no insert, and the loop goes on with the mentions that
  follow, from that state.
\<close>

theorem post_failure_isolated:
  fixes env m ct b w3 reply e
  defines "b4 \<equiv> b\<lparr>mentions_replied_errors := mentions_replied_errors b + 1\<rparr>"
      and "w4 \<equiv> emit (Print (PrintedError e)) (emit (Call_create_tweet reply (mention_id m)) w3)"
  assumes before: "respond_to_mentions_loop env pre b0 w0 = (Inr (), b, w)"
      and resolve: "get_mention_conversation_tweet env m w = (Inr (Some ct), w1)"
      and other: "tweet_id ct \<noteq> mention_id m"
      and fresh: "check_already_responded env (tweet_id ct) w1 = (Inr False, w2)"
      and gen: "generate_response env (tweet_text ct) w2 = (Inr reply, w3)"
      and post: "create_tweet env (trace w3) reply (mention_id m) = Inl e"
  shows "respond_to_mention env m ct b w2 = (Inr None, b4, w4)
       \<and> mentions_replied b4 = mentions_replied b
       \<and> store w4 = store w
       \<and> new_events w3 w4 = [Call_create_tweet reply (mention_id m), Print (PrintedError e)]
       \<and> respond_to_mentions_loop env (pre @ m # rest) b0 w0 =
           respond_to_mentions_loop env rest b4 w4"
proof -
  have rm: "respond_to_mention env m ct b w2 = (Inr None, b4, w4)"
    using gen post by (simp add: respond_to_mention_def Let_def b4_def w4_def)
  have body: "respond_to_mentions_body env m b w = (Inr (), b4, w4)"
    using body_eligible [OF resolve other fresh, of b] rm by simp
  have st: "store w4 = store w"
    using eligible_store [OF resolve fresh] generate_response_store [of env "tweet_text ct" w2] gen
    by (simp add: w4_def)
  have ev: "new_events w3 w4 = [Call_create_tweet reply (mention_id m), Print (PrintedError e)]"
    by (rule new_events_append) (simp add: w4_def)
  have "respond_to_mentions_loop env (pre @ m # rest) b0 w0 =
      respond_to_mentions_loop env (m # rest) b w"
    by (rule loop_after_prefix [OF before])
  with body rm st ev show ?thesis by (simp add: b4_def)
qed

text \<open>
  The theorem on three mentions (10, 11 and 12, of conversations 5, 6 and 7) where the
  posting call raises for mention 11 only: the loop ends normally, with two replies,
  one error, and the rows of conversations 5 and 7.
\<close>

theorem post_failure_isolated_witness:
  "create_tweet
     (sample_env (Some [sample_mention 10 (Some 5), sample_mention 11 (Some 6), sample_mention 12 (Some 7)])
        (post_fails_for 11) (Inr ''ok'') None)
     [] ''ok'' (mention_id (sample_mention 11 (Some 6))) = Inl (ServiceError ''403 Forbidden'')
   \<and> fst (respond_to_mentions
        (sample_env (Some [sample_mention 10 (Some 5), sample_mention 11 (Some 6), sample_mention 12 (Some 7)])
           (post_fails_for 11) (Inr ''ok'') None)
        sample_bot empty_world) = Inr (Some True)
   \<and> fst (snd (respond_to_mentions
        (sample_env (Some [sample_mention 10 (Some 5), sample_mention 11 (Some 6), sample_mention 12 (Some 7)])
           (post_fails_for 11) (Inr ''ok'') None)
        sample_bot empty_world))
      = sample_bot\<lparr>mentions_found := 3, mentions_replied := 2, mentions_replied_errors := 1\<rparr>
   \<and> record_keys (store (snd (snd (respond_to_mentions
        (sample_env (Some [sample_mention 10 (Some 5), sample_mention 11 (Some 6), sample_mention 12 (Some 7)])
           (post_fails_for 11) (Inr ''ok'') None)
        sample_bot empty_world)))) = [''5'', ''7'']
   \<and> respond_to_mentions_loop
        (sample_env (Some [sample_mention 10 (Some 5), sample_mention 11 (Some 6), sample_mention 12 (Some 7)])
           (post_fails_for 11) (Inr ''ok'') None)
        ([sample_mention 10 (Some 5)] @ sample_mention 11 (Some 6) # [sample_mention 12 (Some 7)])
        (sample_bot\<lparr>mentions_found := 3\<rparr>)
        \<lparr>store = [], trace = [Call_get_users_mentions 1 ''-1200'']\<rparr>
      = (Inr (),
         sample_bot\<lparr>mentions_found := 3, mentions_replied := 2, mentions_replied_errors := 1\<rparr>,
         snd (snd (respond_to_mentions
           (sample_env (Some [sample_mention 10 (Some 5), sample_mention 11 (Some 6), sample_mention 12 (Some 7)])
              (post_fails_for 11) (Inr ''ok'') None)
           sample_bot empty_world)))"
proof -
  let ?env = "sample_env (Some [sample_mention 10 (Some 5), sample_mention 11 (Some 6), sample_mention 12 (Some 7)])
        (post_fails_for 11) (Inr ''ok'') None"
  let ?m = "sample_mention 11 (Some 6)"
  let ?bs = "sample_bot\<lparr>mentions_found := 3\<rparr>"
  let ?ws = "\<lparr>store = [], trace = [Call_get_users_mentions 1 ''-1200'']\<rparr>"
  let ?first = "respond_to_mentions_loop ?env [sample_mention 10 (Some 5)] ?bs ?ws"
  let ?b = "fst (snd ?first)"
  let ?w = "snd (snd ?first)"
  let ?w1 = "emit (Call_get_tweet 6) ?w"
  let ?w2 = "emit Call_airtable_get_all ?w1"
  let ?w3 = "snd (generate_response ?env (tweet_text (sample_tweet 6)) ?w2)"
  let ?e = "ServiceError ''403 Forbidden''"
  let ?b4 = "?b\<lparr>mentions_replied_errors := mentions_replied_errors ?b + 1\<rparr>"
  let ?w4 = "emit (Print (PrintedError ?e)) (emit (Call_create_tweet ''ok'' (mention_id ?m)) ?w3)"
  have h1: "?first = (Inr (), ?b, ?w)" by code_simp
  have h2: "get_mention_conversation_tweet ?env ?m ?w = (Inr (Some (sample_tweet 6)), ?w1)"
    by code_simp
  have h3: "tweet_id (sample_tweet 6) \<noteq> mention_id ?m" by code_simp
  have h4: "check_already_responded ?env (tweet_id (sample_tweet 6)) ?w1 = (Inr False, ?w2)"
    by code_simp
  have h5: "generate_response ?env (tweet_text (sample_tweet 6)) ?w2 = (Inr ''ok'', ?w3)"
    by code_simp
  have h6: "create_tweet ?env (trace ?w3) ''ok'' (mention_id ?m) = Inl ?e"
    by code_simp
  have p: "create_tweet ?env [] ''ok'' (mention_id ?m) = Inl ?e"
    by code_simp
  have r1: "fst (respond_to_mentions ?env sample_bot empty_world) = Inr (Some True)"
    by code_simp
  have r2: "fst (snd (respond_to_mentions ?env sample_bot empty_world))
      = sample_bot\<lparr>mentions_found := 3, mentions_replied := 2, mentions_replied_errors := 1\<rparr>"
    by code_simp
  have r3: "record_keys (store (snd (snd (respond_to_mentions ?env sample_bot empty_world))))
      = [''5'', ''7'']"
    by code_simp
  have last: "respond_to_mentions_loop ?env [sample_mention 12 (Some 7)] ?b4 ?w4
      = (Inr (),
         sample_bot\<lparr>mentions_found := 3, mentions_replied := 2, mentions_replied_errors := 1\<rparr>,
         snd (snd (respond_to_mentions ?env sample_bot empty_world)))"
    by code_simp
  have "respond_to_mentions_loop ?env
          ([sample_mention 10 (Some 5)] @ ?m # [sample_mention 12 (Some 7)]) ?bs ?ws
        = respond_to_mentions_loop ?env [sample_mention 12 (Some 7)] ?b4 ?w4"
    by (rule post_failure_isolated [OF h1 h2 h3 h4 h5 h6, of "[sample_mention 12 (Some 7)]",
          THEN conjunct2, THEN conjunct2, THEN conjunct2, THEN conjunct2])
  with last p r1 r2 r3 show ?thesis by simp
qed

lemma loop_raises_at:
  assumes before: "respond_to_mentions_loop env pre b0 w0 = (Inr (), b, w)"
      and resolve: "get_mention_conversation_tweet env m w = (Inr (Some ct), w1)"
      and other: "tweet_id ct \<noteq> mention_id m"
      and fresh: "check_already_responded env (tweet_id ct) w1 = (Inr False, w2)"
      and raises: "respond_to_mention env m ct b w2 = (Inl e, b3, w3)"
  shows "respond_to_mentions_loop env (pre @ m # rest) b0 w0 = (Inl e, b3, w3)"
proof -
  have "respond_to_mentions_body env m b w = (Inl e, b3, w3)"
    using body_eligible [OF resolve other fresh, of b] raises by simp
  then have "respond_to_mentions_loop env (m # rest) b w = (Inl e, b3, w3)"
    by simp
  then show ?thesis
    using loop_after_prefix [OF before, of "m # rest"] by simp
qed

subsection \<open>A model call that raises\<close>

text \<open>
  C5. Take a run that fetches mentions, and a mention within the first
  \<open>tweet_response_limit\<close> of them that the loop reaches and that is to be answered. If
  the model call raises for it, the exception is the result of \<^verbatim>\<open>generate_response\<close>,
  of \<^verbatim>\<open>respond_to_mention\<close>, of the loop and of \<^verbatim>\<open>respond_to_mentions\<close>, and of
  \<^verbatim>\<open>execute_replies\<close> when that is what started the run. The bot is the one the loop
  had when it reached the mention, so no counter has moved for it, and the state is the
  one just after the model call, whatever mentions follow: they are not processed.
\<close>

theorem generation_failure_propagates:
  fixes env ct w2
  defines "prompt \<equiv> [SystemMessage system_template, HumanMessage (tweet_text ct)]"
  defines "w3 \<equiv> emit (Call_llm_invoke prompt) w2"
  assumes fetch: "get_mentions env bs wr = (Inr (Some ms), wm)"
      and cap: "slice_to (tweet_response_limit bs) ms = pre @ m # rest"
      and before: "respond_to_mentions_loop env pre (bs\<lparr>mentions_found := int (length ms)\<rparr>) wm
                     = (Inr (), b, w)"
      and resolve: "get_mention_conversation_tweet env m w = (Inr (Some ct), w1)"
      and other: "tweet_id ct \<noteq> mention_id m"
      and fresh: "check_already_responded env (tweet_id ct) w1 = (Inr False, w2)"
      and llm: "llm_invoke env (trace w2) prompt = Inl e"
  shows "generate_response env (tweet_text ct) w2 = (Inl e, w3)
       \<and> respond_to_mention env m ct b w2 = (Inl e, b, w3)
       \<and> respond_to_mentions_loop env (pre @ m # rest) (bs\<lparr>mentions_found := int (length ms)\<rparr>) wm
           = (Inl e, b, w3)
       \<and> respond_to_mentions env bs wr = (Inl e, b, w3)
       \<and> (wr = emit (Print (StartingJob (isoformat env (utcnow env (trace ws))))) ws \<longrightarrow>
            execute_replies env bs ws = (Inl e, b, w3))"
proof -
  have gen: "generate_response env (tweet_text ct) w2 = (Inl e, w3)"
    using llm by (simp add: generate_response_def Let_def prompt_def w3_def)
  then have rm: "respond_to_mention env m ct b w2 = (Inl e, b, w3)"
    by (simp add: respond_to_mention_def)
  have loop: "respond_to_mentions_loop env (pre @ m # rest)
      (bs\<lparr>mentions_found := int (length ms)\<rparr>) wm = (Inl e, b, w3)"
    by (rule loop_raises_at [OF before resolve other fresh rm])
  have "ms \<noteq> []"
    using cap by (auto simp: slice_to_def split: if_splits)
  then have run: "respond_to_mentions env bs wr = (Inl e, b, w3)"
    using respond_to_mentions_loop_raises [OF fetch] loop cap by simp
  from gen rm loop run show ?thesis
    by (auto intro: execute_replies_raises)
qed

text \<open>
  The theorem on a run that fetches mentions 10 and 11 while the model is down: the run
  ends at mention 10 with the model's exception, the error counter still zero, and
  mention 11 untouched.
\<close>

theorem generation_failure_propagates_witness:
  "llm_invoke
     (sample_env (Some [sample_mention 10 (Some 5), sample_mention 11 (Some 6)]) post_ok
        (Inl (ServiceError ''model unavailable'')) None)
     [Print (StartingJob ''0''), Call_get_users_mentions 1 ''-1200'', Call_get_tweet 5,
      Call_airtable_get_all]
     [SystemMessage system_template, HumanMessage (tweet_text (sample_tweet 5))]
   = Inl (ServiceError ''model unavailable'')
   \<and> execute_replies
       (sample_env (Some [sample_mention 10 (Some 5), sample_mention 11 (Some 6)]) post_ok
          (Inl (ServiceError ''model unavailable'')) None)
       sample_bot empty_world
   = (Inl (ServiceError ''model unavailable''),
      sample_bot\<lparr>mentions_found := 2\<rparr>,
      \<lparr>store = [],
       trace = [Print (StartingJob ''0''), Call_get_users_mentions 1 ''-1200'', Call_get_tweet 5,
                Call_airtable_get_all,
                Call_llm_invoke [SystemMessage system_template, HumanMessage ''DAOs are overrated'']]\<rparr>)
   \<and> mentions_replied_errors (sample_bot\<lparr>mentions_found := 2\<rparr>) = 0"
proof -
  let ?e = "ServiceError ''model unavailable''"
  let ?ms = "[sample_mention 10 (Some 5), sample_mention 11 (Some 6)]"
  let ?env = "sample_env (Some ?ms) post_ok (Inl ?e) None"
  let ?m = "sample_mention 10 (Some 5)"
  let ?wr = "emit (Print (StartingJob (isoformat ?env (utcnow ?env (trace empty_world))))) empty_world"
  let ?wm = "\<lparr>store = [], trace = [Print (StartingJob ''0''), Call_get_users_mentions 1 ''-1200'']\<rparr>"
  let ?b = "sample_bot\<lparr>mentions_found := int (length ?ms)\<rparr>"
  let ?w1 = "emit (Call_get_tweet 5) ?wm"
  let ?w2 = "emit Call_airtable_get_all ?w1"
  let ?p = "[SystemMessage system_template, HumanMessage (tweet_text (sample_tweet 5))]"
  have h1: "get_mentions ?env sample_bot ?wr = (Inr (Some ?ms), ?wm)" by code_simp
  have h2: "slice_to (tweet_response_limit sample_bot) ?ms = [] @ ?m # [sample_mention 11 (Some 6)]"
    by code_simp
  have h3: "respond_to_mentions_loop ?env [] ?b ?wm = (Inr (), ?b, ?wm)" by simp
  have h4: "get_mention_conversation_tweet ?env ?m ?wm = (Inr (Some (sample_tweet 5)), ?w1)"
    by code_simp
  have h5: "tweet_id (sample_tweet 5) \<noteq> mention_id ?m" by code_simp
  have h6: "check_already_responded ?env (tweet_id (sample_tweet 5)) ?w1 = (Inr False, ?w2)"
    by code_simp
  have h7: "llm_invoke ?env (trace ?w2) ?p = Inl ?e" by code_simp
  have t: "trace ?w2 = [Print (StartingJob ''0''), Call_get_users_mentions 1 ''-1200'',
      Call_get_tweet 5, Call_airtable_get_all]"
    by code_simp
  have fin: "(?b, emit (Call_llm_invoke ?p) ?w2) =
     (sample_bot\<lparr>mentions_found := 2\<rparr>,
      \<lparr>store = [],
       trace = [Print (StartingJob ''0''), Call_get_users_mentions 1 ''-1200'', Call_get_tweet 5,
                Call_airtable_get_all,
                Call_llm_invoke [SystemMessage system_template, HumanMessage ''DAOs are overrated'']]\<rparr>)"
    by code_simp
  have z: "mentions_replied_errors (sample_bot\<lparr>mentions_found := 2\<rparr>) = 0" by code_simp
  have "execute_replies ?env sample_bot empty_world = (Inl ?e, ?b, emit (Call_llm_invoke ?p) ?w2)"
    using generation_failure_propagates [OF h1 h2 h3 h4 h5 h6 h7, of empty_world] by blast
  with fin h7 t z show ?thesis by simp
qed

subsection \<open>An insert that raises after the reply is posted\<close>

text \<open>
  C9. Take a run that fetches mentions, and a mention within the first
  \<open>tweet_response_limit\<close> of them that the loop reaches, that is to be answered, for
  which the model returns a reply and the posting call succeeds. If the insert into the
  table then raises, \<^verbatim>\<open>respond_to_mention\<close> ends with that exception (the insert is
  after the \<^verbatim>\<open>try\<close>, so it is not caught and \<open>mentions_replied_errors\<close> does not move):
  \<open>mentions_replied\<close> has already been incremented, the history shows the posting call
  and then the insert, the table is as before and still has no row for the conversation
  tweet, and the exception is the result of \<^verbatim>\<open>respond_to_mentions\<close>. Any later check
  of that conversation against this table, when the table can be read, answers
  \<^verbatim>\<open>False\<close>: the conversation can be replied to again.
\<close>

theorem insert_failure_after_post:
  fixes env m ct b w3 reply rid t
  defines "w4 \<equiv> emit (Call_create_tweet reply (mention_id m)) w3"
  defines "entry \<equiv> reply_record ct rid reply (isoformat env (utcnow env (trace w4)))
                      (isoformat_aware env t)"
  defines "w5 \<equiv> emit (Call_airtable_insert entry) w4"
  defines "b5 \<equiv> b\<lparr>mentions_replied := mentions_replied b + 1\<rparr>"
  assumes fetch: "get_mentions env bs wr = (Inr (Some ms), wm)"
      and cap: "slice_to (tweet_response_limit bs) ms = pre @ m # rest"
      and before: "respond_to_mentions_loop env pre (bs\<lparr>mentions_found := int (length ms)\<rparr>) wm
                     = (Inr (), b, w)"
      and resolve: "get_mention_conversation_tweet env m w = (Inr (Some ct), w1)"
      and other: "tweet_id ct \<noteq> mention_id m"
      and fresh: "check_already_responded env (tweet_id ct) w1 = (Inr False, w2)"
      and gen: "generate_response env (tweet_text ct) w2 = (Inr reply, w3)"
      and post: "create_tweet env (trace w3) reply (mention_id m) = Inr rid"
      and at: "created_at m = Some t"
      and ins: "airtable_insert env (trace w4) entry = Some e"
  shows "respond_to_mention env m ct b w2 = (Inl e, b5, w5)
       \<and> mentions_replied_errors b5 = mentions_replied_errors b
       \<and> new_events w3 w5 = [Call_create_tweet reply (mention_id m), Call_airtable_insert entry]
       \<and> store w5 = store w
       \<and> \<not> scan_records (store w5) (str (tweet_id ct))
       \<and> respond_to_mentions env bs wr = (Inl e, b5, w5)
       \<and> (store w' = store w5 \<and> airtable_get_all env' (trace w') = None \<longrightarrow>
            check_already_responded env' (tweet_id ct) w' = (Inr False, emit Call_airtable_get_all w'))"
proof -
  have rm: "respond_to_mention env m ct b w2 = (Inl e, b5, w5)"
    using gen post at ins
    by (simp add: respond_to_mention_def Let_def w4_def entry_def w5_def b5_def)
  have ev: "new_events w3 w5 = [Call_create_tweet reply (mention_id m), Call_airtable_insert entry]"
    by (rule new_events_append) (simp add: w5_def w4_def)
  have st: "store w5 = store w" and none: "\<not> scan_records (store w) (str (tweet_id ct))"
    using eligible_store [OF resolve fresh] generate_response_store [of env "tweet_text ct" w2] gen
    by (simp_all add: w5_def w4_def)
  have loop: "respond_to_mentions_loop env (pre @ m # rest)
      (bs\<lparr>mentions_found := int (length ms)\<rparr>) wm = (Inl e, b5, w5)"
    by (rule loop_raises_at [OF before resolve other fresh rm])
  have "ms \<noteq> []"
    using cap by (auto simp: slice_to_def split: if_splits)
  then have run: "respond_to_mentions env bs wr = (Inl e, b5, w5)"
    using respond_to_mentions_loop_raises [OF fetch] loop cap by simp
  have later: "store w' = store w5 \<and> airtable_get_all env' (trace w') = None \<longrightarrow>
      check_already_responded env' (tweet_id ct) w' = (Inr False, emit Call_airtable_get_all w')"
    using st none by (simp add: check_already_responded_def)
  from rm ev st none run later show ?thesis
    by (simp add: b5_def)
qed

text \<open>
  The theorem on a run that fetches mention 10 of conversation 5 while every insert
  raises: the run ends with the insert's exception, one reply counted and an empty
  table; a second run on the world it leaves posts a reply to mention 10 again.
\<close>

theorem insert_failure_after_post_witness:
  "airtable_insert
     (sample_env (Some [sample_mention 10 (Some 5)]) post_ok (Inr ''ok'')
        (Some (ServiceError ''table unavailable'')))
     [Call_get_users_mentions 1 ''-1200'', Call_get_tweet 5, Call_airtable_get_all,
      Call_llm_invoke [SystemMessage system_template, HumanMessage ''DAOs are overrated''],
      Call_create_tweet ''ok'' 10]
     (reply_record (sample_tweet 5) ''99'' ''ok'' ''0'' ''0+00:00'')
   = Some (ServiceError ''table unavailable'')
   \<and> respond_to_mentions
       (sample_env (Some [sample_mention 10 (Some 5)]) post_ok (Inr ''ok'')
          (Some (ServiceError ''table unavailable'')))
       sample_bot empty_world
   = (Inl (ServiceError ''table unavailable''),
      sample_bot\<lparr>mentions_found := 1, mentions_replied := 1\<rparr>,
      \<lparr>store = [],
       trace = [Call_get_users_mentions 1 ''-1200'', Call_get_tweet 5, Call_airtable_get_all,
                Call_llm_invoke [SystemMessage system_template, HumanMessage ''DAOs are overrated''],
                Call_create_tweet ''ok'' 10,
                Call_airtable_insert (reply_record (sample_tweet 5) ''99'' ''ok'' ''0'' ''0+00:00'')]\<rparr>)
   \<and> reply_targets (trace (snd (snd (respond_to_mentions
        (sample_env (Some [sample_mention 10 (Some 5)]) post_ok (Inr ''ok'')
           (Some (ServiceError ''table unavailable'')))
        sample_bot
        (snd (snd (respond_to_mentions
           (sample_env (Some [sample_mention 10 (Some 5)]) post_ok (Inr ''ok'')
              (Some (ServiceError ''table unavailable'')))
           sample_bot empty_world))))))) = [10, 10]"
proof -
  let ?e = "ServiceError ''table unavailable''"
  let ?ms = "[sample_mention 10 (Some 5)]"
  let ?env = "sample_env (Some ?ms) post_ok (Inr ''ok'') (Some ?e)"
  let ?m = "sample_mention 10 (Some 5)"
  let ?wm = "\<lparr>store = [], trace = [Call_get_users_mentions 1 ''-1200'']\<rparr>"
  let ?b = "sample_bot\<lparr>mentions_found := int (length ?ms)\<rparr>"
  let ?w1 = "emit (Call_get_tweet 5) ?wm"
  let ?w2 = "emit Call_airtable_get_all ?w1"
  let ?w3 = "emit (Call_llm_invoke [SystemMessage system_template,
                 HumanMessage (tweet_text (sample_tweet 5))]) ?w2"
  let ?w4 = "emit (Call_create_tweet ''ok'' (mention_id ?m)) ?w3"
  let ?entry = "reply_record (sample_tweet 5) ''99'' ''ok''
                  (isoformat ?env (utcnow ?env (trace ?w4))) (isoformat_aware ?env 0)"
  have h1: "get_mentions ?env sample_bot empty_world = (Inr (Some ?ms), ?wm)" by code_simp
  have h2: "slice_to (tweet_response_limit sample_bot) ?ms = [] @ ?m # []" by code_simp
  have h3: "respond_to_mentions_loop ?env [] ?b ?wm = (Inr (), ?b, ?wm)" by simp
  have h4: "get_mention_conversation_tweet ?env ?m ?wm = (Inr (Some (sample_tweet 5)), ?w1)"
    by code_simp
  have h5: "tweet_id (sample_tweet 5) \<noteq> mention_id ?m" by code_simp
  have h6: "check_already_responded ?env (tweet_id (sample_tweet 5)) ?w1 = (Inr False, ?w2)"
    by code_simp
  have h7: "generate_response ?env (tweet_text (sample_tweet 5)) ?w2 = (Inr ''ok'', ?w3)"
    by code_simp
  have h8: "create_tweet ?env (trace ?w3) ''ok'' (mention_id ?m) = Inr ''99''" by code_simp
  have h9: "created_at ?m = Some 0" by code_simp
  have h10: "airtable_insert ?env (trace ?w4) ?entry = Some ?e" by code_simp
  have ins: "airtable_insert ?env
     [Call_get_users_mentions 1 ''-1200'', Call_get_tweet 5, Call_airtable_get_all,
      Call_llm_invoke [SystemMessage system_template, HumanMessage ''DAOs are overrated''],
      Call_create_tweet ''ok'' 10]
     (reply_record (sample_tweet 5) ''99'' ''ok'' ''0'' ''0+00:00'') = Some ?e"
    by code_simp
  have fin: "(?b\<lparr>mentions_replied := mentions_replied ?b + 1\<rparr>,
       emit (Call_airtable_insert ?entry) ?w4) =
     (sample_bot\<lparr>mentions_found := 1, mentions_replied := 1\<rparr>,
      \<lparr>store = [],
       trace = [Call_get_users_mentions 1 ''-1200'', Call_get_tweet 5, Call_airtable_get_all,
                Call_llm_invoke [SystemMessage system_template, HumanMessage ''DAOs are overrated''],
                Call_create_tweet ''ok'' 10,
                Call_airtable_insert (reply_record (sample_tweet 5) ''99'' ''ok'' ''0'' ''0+00:00'')]\<rparr>)"
    by code_simp
  have again: "reply_targets (trace (snd (snd (respond_to_mentions ?env sample_bot
      (snd (snd (respond_to_mentions ?env sample_bot empty_world))))))) = [10, 10]"
    by code_simp
  have "respond_to_mentions ?env sample_bot empty_world =
      (Inl ?e, ?b\<lparr>mentions_replied := mentions_replied ?b + 1\<rparr>,
       emit (Call_airtable_insert ?entry) ?w4)"
    using insert_failure_after_post [OF h1 h2 h3 h4 h5 h6 h7 h8 h9 h10] by blast
  with fin ins again show ?thesis by simp
qed

lemma slice_to_limit: "slice_to 35 xs = take 35 xs"
  by (simp add: slice_to_def)

lemma loop_cap:
  fixes env ms b w
  defines "evs \<equiv> new_events w (snd (snd (respond_to_mentions_loop env ms b w)))"
  shows "prefix (resolved_ids evs) (List.map_filter conversation_id ms)
       \<and> subseq (reply_targets evs) (map mention_id ms)"
proof -
  obtain es where es: "trace (snd (snd (respond_to_mentions_loop env ms b w))) = trace w @ es"
    "prefix (resolved_ids es) (List.map_filter conversation_id ms)"
    "subseq (reply_targets es) (map mention_id ms)"
    using loop_trace [of env ms b w] by blast
  have "evs = es"
    unfolding evs_def by (rule new_events_append [OF es(1)])
  with es show ?thesis by simp
qed

lemma length_map_filter_le: "length (List.map_filter f xs) \<le> length xs"
  by (simp add: List.map_filter_def)

subsection \<open>The cap on a run\<close>

text \<open>
  C6. Take a bot with \<open>tweet_response_limit = 35\<close>, the value \<^verbatim>\<open>__init__\<close> gives and
  nothing changes, in any world, and let the fetch return \<open>N\<close> mentions (\<^verbatim>\<open>None\<close>
  counting as no mention); when \<open>N\<close> is zero let \<open>mentions_found\<close> be zero before the
  run, as it is on a new bot (the run does not write it then). Then, however the run
  ends, \<open>mentions_found\<close> is \<open>N\<close>, the number fetched before the slice; and the mentions
  the run works on are among the first 35, in the order fetched: the conversation tweets
  it fetches are those of the first 35 mentions, in order, up to where it stopped, the
  mentions it posts a reply to are some of the first 35, in order, and so it resolves at
  most 35 mentions and posts at most 35 replies. When the run is the one that
  \<^verbatim>\<open>execute_replies\<close> starts, \<open>mentions_found\<close> is \<open>N\<close> at the end of
  \<^verbatim>\<open>execute_replies\<close> too.
\<close>

theorem cap_enforcement:
  fixes env b w fetched
  defines "ms \<equiv> (case fetched of None \<Rightarrow> [] | Some xs \<Rightarrow> xs)"
  defines "result \<equiv> respond_to_mentions env b w"
  assumes limit: "tweet_response_limit b = 35"
      and fetch: "get_mentions env b w = (Inr fetched, w1)"
      and fresh: "ms = [] \<longrightarrow> mentions_found b = 0"
  shows "mentions_found (fst (snd result)) = int (length ms)
       \<and> prefix (resolved_ids (new_events w1 (snd (snd result))))
            (List.map_filter conversation_id (take 35 ms))
       \<and> subseq (reply_targets (new_events w1 (snd (snd result)))) (map mention_id (take 35 ms))
       \<and> length (resolved_ids (new_events w1 (snd (snd result)))) \<le> 35
       \<and> length (reply_targets (new_events w1 (snd (snd result)))) \<le> 35
       \<and> (w = emit (Print (StartingJob (isoformat env (utcnow env (trace ws))))) ws \<longrightarrow>
            mentions_found (fst (snd (execute_replies env b ws))) = int (length ms))"
proof -
  let ?evs = "new_events w1 (snd (snd result))"
  have main: "mentions_found (fst (snd result)) = int (length ms)
       \<and> prefix (resolved_ids ?evs) (List.map_filter conversation_id (take 35 ms))
       \<and> subseq (reply_targets ?evs) (map mention_id (take 35 ms))"
  proof (cases "fetched = None \<or> fetched = Some []")
    case True
    then have "ms = []" by (auto simp: ms_def)
    moreover have "result = (Inr None, b, emit (Print NoMentionsFound) w1)"
      unfolding result_def by (rule respond_to_mentions_empty [OF fetch True])
    moreover have "new_events w1 (emit (Print NoMentionsFound) w1) = [Print NoMentionsFound]"
      by (rule new_events_append) simp
    ultimately show ?thesis using fresh by simp
  next
    case False
    then have some: "fetched = Some ms" and ne: "ms \<noteq> []"
      by (cases fetched; simp add: ms_def)+
    have fetch': "get_mentions env b w = (Inr (Some ms), w1)"
      using fetch some by simp
    have res: "snd result = snd (respond_to_mentions_loop env (take 35 ms)
        (b\<lparr>mentions_found := int (length ms)\<rparr>) w1)"
      unfolding result_def
      using respond_to_mentions_fetched [OF fetch' ne] limit by (simp add: slice_to_limit)
    show ?thesis
      using loop_cap [of w1 env "take 35 ms" "b\<lparr>mentions_found := int (length ms)\<rparr>"]
        loop_mentions_found [of env "take 35 ms" "b\<lparr>mentions_found := int (length ms)\<rparr>" w1]
      by (simp add: res)
  qed
  have "length (resolved_ids ?evs) \<le> length (List.map_filter conversation_id (take 35 ms))"
    using main by (simp add: prefix_length_le)
  also have "\<dots> \<le> length (take 35 ms)" by (rule length_map_filter_le)
  finally have l1: "length (resolved_ids ?evs) \<le> 35" by simp
  have "subseq (reply_targets ?evs) (map mention_id (take 35 ms))"
    using main by simp
  then have "length (reply_targets ?evs) \<le> length (map mention_id (take 35 ms))"
    by (rule list_emb_length)
  then have l2: "length (reply_targets ?evs) \<le> 35" by simp
  have exec: "mentions_found (fst (snd (execute_replies env b ws))) = int (length ms)"
    if "w = emit (Print (StartingJob (isoformat env (utcnow env (trace ws))))) ws"
    using main that by (simp add: execute_replies_bot result_def)
  from main l1 l2 exec show ?thesis by simp
qed

text \<open>
  The theorem on a job whose fetch returns fifty mentions: the bot is the one the job has
  built, the run is the one \<^verbatim>\<open>execute_replies\<close> starts, \<open>mentions_found\<close> is fifty and
  at most 35 replies are posted.
\<close>

theorem cap_enforcement_witness:
  "TwitterBot_init (sample_env (Some (sample_mentions 50)) post_ok (Inr ''ok'') None)
     (emit (Print (JobExecutedAt ''0'')) empty_world)
     = (Inr sample_bot, emit Call_get_me (emit (Print (JobExecutedAt ''0'')) empty_world))
   \<and> tweet_response_limit sample_bot = 35
   \<and> get_mentions (sample_env (Some (sample_mentions 50)) post_ok (Inr ''ok'') None) sample_bot
        (emit (Print (StartingJob ''0''))
           (emit Call_get_me (emit (Print (JobExecutedAt ''0'')) empty_world)))
     = (Inr (Some (sample_mentions 50)),
        emit (Call_get_users_mentions 1 (str (- 1200)))
          (emit (Print (StartingJob ''0''))
             (emit Call_get_me (emit (Print (JobExecutedAt ''0'')) empty_world))))
   \<and> length (sample_mentions 50) = 50
   \<and> mentions_found (fst (snd (respond_to_mentions
        (sample_env (Some (sample_mentions 50)) post_ok (Inr ''ok'') None) sample_bot
        (emit (Print (StartingJob ''0''))
           (emit Call_get_me (emit (Print (JobExecutedAt ''0'')) empty_world)))))) = 50
   \<and> length (reply_targets (new_events
        (emit (Call_get_users_mentions 1 (str (- 1200)))
          (emit (Print (StartingJob ''0''))
             (emit Call_get_me (emit (Print (JobExecutedAt ''0'')) empty_world))))
        (snd (snd (respond_to_mentions
           (sample_env (Some (sample_mentions 50)) post_ok (Inr ''ok'') None) sample_bot
           (emit (Print (StartingJob ''0''))
              (emit Call_get_me (emit (Print (JobExecutedAt ''0'')) empty_world)))))))) \<le> 35
   \<and> mentions_found (fst (snd (execute_replies
        (sample_env (Some (sample_mentions 50)) post_ok (Inr ''ok'') None) sample_bot
        (emit Call_get_me (emit (Print (JobExecutedAt ''0'')) empty_world))))) = 50"
proof -
  let ?env = "sample_env (Some (sample_mentions 50)) post_ok (Inr ''ok'') None"
  let ?ws = "emit Call_get_me (emit (Print (JobExecutedAt ''0'')) empty_world)"
  let ?w = "emit (Print (StartingJob ''0'')) ?ws"
  let ?w1 = "emit (Call_get_users_mentions 1 (str (- 1200))) ?w"
  have init: "TwitterBot_init ?env (emit (Print (JobExecutedAt ''0'')) empty_world)
      = (Inr sample_bot, ?ws)"
    by (simp add: TwitterBot_init_def get_me_id_def sample_env_def sample_bot_def)
  have h1: "tweet_response_limit sample_bot = 35"
    by (simp add: sample_bot_def)
  have h2: "get_mentions ?env sample_bot ?w = (Inr (Some (sample_mentions 50)), ?w1)"
    by (simp add: get_mentions_def sample_env_def sample_bot_def Let_def)
  have n: "length (sample_mentions 50) = 50"
    by (simp add: sample_mentions_def)
  have h3: "(case Some (sample_mentions 50) of None \<Rightarrow> [] | Some xs \<Rightarrow> xs) = [] \<longrightarrow>
      mentions_found sample_bot = 0"
    by (simp add: sample_bot_def)
  have zero: "str 0 = ''0''" by code_simp
  have start: "?w = emit (Print (StartingJob (isoformat ?env (utcnow ?env (trace ?ws))))) ?ws"
    by (simp add: sample_env_def zero)
  from cap_enforcement [OF h1 h2 h3, of ?ws] init h1 h2 n start show ?thesis by simp
qed

lemma get_mentions_zeroed: "get_mentions env (zeroed b) w = get_mentions env b w"
  by (simp add: get_mentions_def zeroed_def)

lemma run_counters_from_zero:
  fixes env b w
  defines "run \<equiv> respond_to_mentions env b w"
      and "run0 \<equiv> respond_to_mentions env (zeroed b) w"
  shows "fst run = fst run0 \<and> snd (snd run) = snd (snd run0)
       \<and> mentions_replied (fst (snd run)) = mentions_replied b + mentions_replied (fst (snd run0))
       \<and> mentions_replied_errors (fst (snd run)) =
            mentions_replied_errors b + mentions_replied_errors (fst (snd run0))
       \<and> mentions_found (fst (snd run)) =
            (case fst (get_mentions env b w) of
               Inr (Some (x # xs)) \<Rightarrow> int (length (x # xs))
             | _ \<Rightarrow> mentions_found b)"
proof -
  obtain g w1 where gm: "get_mentions env b w = (g, w1)"
    by (cases "get_mentions env b w")
  then have gm0: "get_mentions env (zeroed b) w = (g, w1)"
    by (simp add: get_mentions_zeroed)
  show ?thesis
  proof (cases g)
    case (Inl e)
    then show ?thesis
      using gm gm0 unfolding run_def run0_def
      by (simp add: respond_to_mentions_fetch_raises zeroed_def)
  next
    case (Inr fetched)
    show ?thesis
    proof (cases "fetched = None \<or> fetched = Some []")
      case True
      have "run = (Inr None, b, emit (Print NoMentionsFound) w1)"
        unfolding run_def using gm Inr True by (intro respond_to_mentions_empty) simp_all
      moreover have "run0 = (Inr None, zeroed b, emit (Print NoMentionsFound) w1)"
        unfolding run0_def using gm0 Inr True by (intro respond_to_mentions_empty) simp_all
      ultimately show ?thesis
        using gm Inr True by (auto simp: zeroed_def)
    next
      case False
      then obtain x xs where some: "fetched = Some (x # xs)"
        by (cases fetched; cases "the fetched") auto
      let ?ms = "slice_to (tweet_response_limit b) (x # xs)"
      obtain r dr de w' where
        shift: "\<forall>b'. respond_to_mentions_loop env ?ms b' w1 = (r, add_counts dr de b', w')"
        using loop_shift [of env ?ms w1] by blast
      have "run = ((case r of Inl e \<Rightarrow> Inl e | Inr u \<Rightarrow> Inr (Some True)),
                   add_counts dr de (b\<lparr>mentions_found := int (length (x # xs))\<rparr>), w')"
        unfolding run_def using gm Inr some shift
        by (simp add: respond_to_mentions_def Let_def split: sum.splits)
      moreover have "run0 = ((case r of Inl e \<Rightarrow> Inl e | Inr u \<Rightarrow> Inr (Some True)),
                   add_counts dr de ((zeroed b)\<lparr>mentions_found := int (length (x # xs))\<rparr>), w')"
        unfolding run0_def using gm0 Inr some shift
        by (simp add: respond_to_mentions_def Let_def zeroed_def split: sum.splits)
      ultimately show ?thesis
        using gm Inr some by (simp add: add_counts_def zeroed_def)
    qed
  qed
qed

subsection \<open>Where the counters are set to zero\<close>

text \<open>
  C8, as amended. The three counters are set to zero by \<^verbatim>\<open>__init__\<close>, and nowhere
  else: \<^verbatim>\<open>respond_to_mentions\<close> does not reset them. A run from any bot ends as the
  run from the same bot with zeroed counters does (same result, same world), with
  \<open>mentions_replied\<close> and \<open>mentions_replied_errors\<close> the prior values plus what the
  zeroed run counts, and with \<open>mentions_found\<close> the number fetched when mentions were
  fetched and the prior value otherwise. So the counters at the end of a run are those of
  that run alone exactly when it starts from zero, as it does on a new bot.
\<close>

theorem counters_zero_at_construction_only:
  fixes env b w
  defines "run \<equiv> respond_to_mentions env b w"
      and "run0 \<equiv> respond_to_mentions env (zeroed b) w"
  shows "(TwitterBot_init env w0 = (Inr nb, w1) \<longrightarrow>
            mentions_found nb = 0 \<and> mentions_replied nb = 0 \<and> mentions_replied_errors nb = 0)
       \<and> fst run = fst run0 \<and> snd (snd run) = snd (snd run0)
       \<and> mentions_replied (fst (snd run)) = mentions_replied b + mentions_replied (fst (snd run0))
       \<and> mentions_replied_errors (fst (snd run)) =
            mentions_replied_errors b + mentions_replied_errors (fst (snd run0))
       \<and> mentions_found (fst (snd run)) =
            (case fst (get_mentions env b w) of
               Inr (Some (x # xs)) \<Rightarrow> int (length (x # xs))
             | _ \<Rightarrow> mentions_found b)"
  unfolding run_def run0_def
  using run_counters_from_zero [of env b w] TwitterBot_init_counters [of env w0 nb w1]
  by blast

text \<open>
  The theorem on a bot that has counted three mentions, two replies and one error, in a
  run that fetches mention 10 of conversation 5 and replies to it: the run ends with
  three replies counted, where a new bot counts one.
\<close>

theorem counters_zero_at_construction_only_witness:
  "TwitterBot_init (sample_env (Some [sample_mention 10 (Some 5)]) post_ok (Inr ''ok'') None)
     empty_world = (Inr sample_bot, emit Call_get_me empty_world)
   \<and> mentions_replied sample_bot = 0
   \<and> zeroed stale_bot = sample_bot
   \<and> fst (snd (respond_to_mentions
        (sample_env (Some [sample_mention 10 (Some 5)]) post_ok (Inr ''ok'') None)
        sample_bot empty_world))
      = sample_bot\<lparr>mentions_found := 1, mentions_replied := 1\<rparr>
   \<and> mentions_replied (fst (snd (respond_to_mentions
        (sample_env (Some [sample_mention 10 (Some 5)]) post_ok (Inr ''ok'') None)
        stale_bot empty_world))) = 3
   \<and> mentions_replied_errors (fst (snd (respond_to_mentions
        (sample_env (Some [sample_mention 10 (Some 5)]) post_ok (Inr ''ok'') None)
        stale_bot empty_world))) = 1"
proof -
  let ?env = "sample_env (Some [sample_mention 10 (Some 5)]) post_ok (Inr ''ok'') None"
  have h: "TwitterBot_init ?env empty_world = (Inr sample_bot, emit Call_get_me empty_world)"
    by code_simp
  have z: "zeroed stale_bot = sample_bot" by code_simp
  have r0: "fst (snd (respond_to_mentions ?env sample_bot empty_world))
      = sample_bot\<lparr>mentions_found := 1, mentions_replied := 1\<rparr>"
    by code_simp
  have s: "mentions_replied stale_bot = 2" "mentions_replied_errors stale_bot = 1"
    by code_simp+
  from counters_zero_at_construction_only [of ?env empty_world sample_bot
      "emit Call_get_me empty_world" stale_bot empty_world] h z r0 s
  show ?thesis by simp
qed

text \<open>
  The claim as first stated (the counters are reset at the start of every run, whatever
  they were) fails: \<^verbatim>\<open>execute_replies\<close> on the bot above, in a run that fetches no
  mention, leaves the counters as they were and reports them, three found, two replied,
  one error, for a run that found nothing.
\<close>

theorem counters_reset_counterexample:
  "execute_replies (sample_env None post_ok (Inr ''ok'') None) stale_bot empty_world
   = (Inr (), stale_bot,
      \<lparr>store = [],
       trace = [Print (StartingJob ''0''), Call_get_users_mentions 1 ''-1200'',
                Print NoMentionsFound, Print (FinishedJob ''0'' 3 2 1)]\<rparr>)
   \<and> mentions_found stale_bot = 3 \<and> mentions_replied stale_bot = 2
   \<and> mentions_replied_errors stale_bot = 1"
  by code_simp

end
